theory Spec2Isabelle
  imports Main "HOL-Library.Word"
begin

unbundle bit_operations_syntax

section \<open>Common types\<close>

text \<open>
  The fastboot server of kernelflinger is C code over UEFI.  \<open>UINT64\<close> and \<open>UINTN\<close> are
  64-bit words, \<open>UINT32\<close> and \<open>unsigned\<close> are 32-bit words; arithmetic on them wraps.
\<close>

type_synonym u64 = "64 word"
type_synonym u32 = "32 word"

text \<open>
  \<open>EFI_STATUS\<close>.  \<open>EFI_SUCCESS_REFRESH\<close> stands for the value
  \<open>EFI_SUCCESS | REFRESH_PARTITION_VAR\<close> that \<open>flash_gpt\<close> returns: a status that is
  not an error and carries the refresh flag.  \<open>EFI_OTHER_ERROR n\<close> is any further
  error code a collaborator may return.
\<close>

datatype efi_status =
    EFI_SUCCESS
  | EFI_SUCCESS_REFRESH
  | EFI_INVALID_PARAMETER
  | EFI_UNSUPPORTED
  | EFI_OUT_OF_RESOURCES
  | EFI_ACCESS_DENIED
  | EFI_BUFFER_TOO_SMALL
  | EFI_OTHER_ERROR nat

fun EFI_ERROR :: "efi_status \<Rightarrow> bool" where
  "EFI_ERROR EFI_SUCCESS = False"
| "EFI_ERROR EFI_SUCCESS_REFRESH = False"
| "EFI_ERROR _ = True"

section \<open>Partition hasher (libfastboot/hashes.c)\<close>

subsection \<open>Verity tree size\<close>

text \<open>
  Modelled from the spec: the macro \<open>DIV_ROUND_UP\<close> comes from a header outside the
  files modelled here; the spec names it a ceil-division, so it is the quotient, plus one
  when the division leaves a remainder.
\<close>

definition DIV_ROUND_UP :: "u64 \<Rightarrow> u64 \<Rightarrow> u64" where
  "DIV_ROUND_UP n d = n div d + (if n mod d = 0 then 0 else 1)"




text \<open>Ceil-division on natural numbers, the reference the word-level code is compared with.\<close>

definition ceil_div :: "nat \<Rightarrow> nat \<Rightarrow> nat" where
  "ceil_div n d = n div d + (if n mod d = 0 then 0 else 1)"



lemma ceil_div_half: "1 < d \<Longrightarrow> ceil_div n d \<le> n div 2 + 1"
proof -
  assume d: "1 < d"
  have "n div d \<le> n div 2" using d by (simp add: div_le_mono2)
  then show ?thesis by (simp add: ceil_div_def)
qed

lemma unat_DIV_ROUND_UP: 
  assumes "1 < unat d"
  shows "unat (DIV_ROUND_UP n d) = ceil_div (unat n) (unat d)"
proof -
  have q: "unat (n div d) = unat n div unat d" by (simp add: unat_div)
  have m: "(n mod d = 0) = (unat n mod unat d = 0)"
    by (metis unat_mod unat_eq_0)
  have "unat n div unat d \<le> unat n div 2" using assms by (simp add: div_le_mono2)
  moreover have "unat n < 2 ^ 64" using unsigned_less [of n] by simp
  ultimately have b: "unat (n div d) + 1 < 2 ^ 64" using q by simp
  have "unat (n div d + 1) = unat (n div d) + 1"
    using b by (simp add: unat_word_ariths)
  then show ?thesis using q m by (simp add: DIV_ROUND_UP_def ceil_div_def)
qed

lemma ceil_div_sum: "0 < d \<Longrightarrow> (n + d - 1) div d = ceil_div n d"
proof -
  assume d: "0 < d"
  define q where "q = n div d"
  define r where "r = n mod d"
  have n: "n = d * q + r" by (simp add: q_def r_def)
  have rl: "r < d" using d by (simp add: r_def)
  show ?thesis
  proof (cases "r = 0")
    case True
    have "(n + d - 1) div d = q"
    proof (rule div_nat_eqI)
      have "n = d * q" using n True by simp
      then show "d * q \<le> n + d - 1" "n + d - 1 < d * Suc q" using d by simp_all
    qed
    then show ?thesis using True by (simp add: ceil_div_def q_def r_def)
  next
    case False
    have "(n + d - 1) div d = Suc q"
    proof (rule div_nat_eqI)
      show "d * Suc q \<le> n + d - 1" "n + d - 1 < d * Suc (Suc q)" using n False rl d by simp_all
    qed
    then show ?thesis using False by (simp add: ceil_div_def q_def r_def)
  qed
qed

text \<open>
  The usual form of the macro, \<open>(n + d - 1) / d\<close>, gives the same value wherever its
  sum does not wrap around.
\<close>

lemma DIV_ROUND_UP_sum:
  assumes "1 < unat d" and "unat n + unat d \<le> 2 ^ 64"
  shows "(n + d - 1) div d = DIV_ROUND_UP n d"
proof -
  have d1: "1 \<le> d" using assms(1) by (simp add: word_le_nat_alt)
  have s: "unat (n + d - 1) = unat n + unat d - 1"
  proof -
    have e: "n + d - 1 = n + (d - 1)" by simp
    have dm: "unat (d - 1) = unat d - 1" using d1 by (simp add: unat_sub)
    have "unat n + unat (d - 1) < 2 ^ 64" using assms dm by simp
    then have "unat (n + (d - 1)) = unat n + unat (d - 1)" by (simp add: unat_word_ariths)
    then show ?thesis unfolding e using dm assms(1) by simp
  qed
  have "unat ((n + d - 1) div d) = ceil_div (unat n) (unat d)"
    using s assms(1) ceil_div_sum [of "unat d" "unat n"] by (simp add: unat_div)
  then have "unat ((n + d - 1) div d) = unat (DIV_ROUND_UP n d)"
    using assms(1) by (simp add: unat_DIV_ROUND_UP)
  then show ?thesis by (rule word_unat_eq_iff [THEN iffD2])
qed












subsection \<open>SquashFS length and the hashed region\<close>



























section \<open>Flash engine (libfastboot/flash.c)\<close>

subsection \<open>The current partition and the write cursor\<close>

text \<open>
  \<open>struct gpt_partition_interface\<close>, as far as the flash engine reads it: whether the
  block-I/O pointer \<open>bio\<close> is \<open>NULL\<close>, the block size behind it (a \<open>UINT32\<close>), and the
  first and last LBA of the partition.
\<close>

record gpt_partition_interface =
  bio_null :: bool
  BlockSize :: u32
  starting_lba :: u64
  ending_lba :: u64

text \<open>
  The two file-level variables \<open>gparti\<close> and \<open>cur_offset\<close>, and the calls made to
  \<open>WriteDisk\<close>, each with its byte offset and its size, oldest first.
\<close>

record flash_state =
  gparti :: gpt_partition_interface
  cur_offset :: u64
  disk_writes :: "(u64 \<times> u64) list"

definition part_start :: "gpt_partition_interface \<Rightarrow> u64" where
  "part_start g = starting_lba g * ucast (BlockSize g)"

definition part_end :: "gpt_partition_interface \<Rightarrow> u64" where
  "part_end g = (ending_lba g + 1) * ucast (BlockSize g)"

definition is_inside_partition :: "gpt_partition_interface \<Rightarrow> u64 \<Rightarrow> u64 \<Rightarrow> bool" where
  "is_inside_partition g off sz = (off \<ge> part_start g \<and> off + sz \<le> part_end g)"

text \<open>
  \<open>flash_skip\<close> reads \<open>gparti.bio->Media->BlockSize\<close> without a test of \<open>bio\<close>: with a
  \<open>NULL\<close> pointer the C code does not return, which is the value \<open>None\<close>.
\<close>

definition flash_skip :: "u64 \<Rightarrow> flash_state \<Rightarrow> (efi_status \<times> flash_state) option" where
  "flash_skip sz s =
     (if bio_null (gparti s) then None
      else if \<not> is_inside_partition (gparti s) (cur_offset s) sz
           then Some (EFI_INVALID_PARAMETER, s)
      else Some (EFI_SUCCESS, s\<lparr>cur_offset := cur_offset s + sz\<rparr>))"

text \<open>
  \<open>flash_write\<close>; \<open>wd\<close> is the status \<open>WriteDisk\<close> returns.  The cursor advances also
  when \<open>WriteDisk\<close> fails.
\<close>

definition flash_write :: "efi_status \<Rightarrow> u64 \<Rightarrow> flash_state \<Rightarrow> efi_status \<times> flash_state" where
  "flash_write wd sz s =
     (if bio_null (gparti s) then (EFI_INVALID_PARAMETER, s)
      else if \<not> is_inside_partition (gparti s) (cur_offset s) sz
           then (EFI_INVALID_PARAMETER, s)
      else (wd, s\<lparr>disk_writes := disk_writes s @ [(cur_offset s, sz)],
                   cur_offset := cur_offset s + sz\<rparr>))"

subsection \<open>Splicing a kernel into the boot image\<close>

text \<open>The fields of \<open>struct boot_img_hdr\<close> that \<open>flash_zimage\<close> reads.\<close>

record boot_img_hdr =
  img_magic :: string
  kernel_size :: u32
  ramdisk_size :: u32
  second_size :: u32
  page_size :: u32

text \<open>
  Modelled from the spec: \<open>BOOT_MAGIC\<close> is declared outside the files modelled here; the
  spec gives the magic of a boot image as the eight bytes \<open>ANDROID!\<close>.  \<open>img_magic\<close> is
  the eight bytes of the field \<open>magic\<close>, which \<open>strncmpa\<close> compares with it.
\<close>

definition BOOT_MAGIC :: string where "BOOT_MAGIC = ''ANDROID!''"

text \<open>
  What \<open>flash_zimage\<close> gets from its collaborators: the lookup of the partition
  \<open>boot\<close>, whether the two allocations succeed, the outcome of \<open>ReadDisk\<close> (a status, or
  the header at the start of the bytes read) and the status of \<open>WriteDisk\<close>.
\<close>

record zimage_env =
  boot_part :: "efi_status + gpt_partition_interface"
  alloc_bootimage :: bool
  read_disk :: "efi_status + boot_img_hdr"
  alloc_new_bootimage :: bool
  write_disk :: efi_status

text \<open>
  \<open>flash_zimage\<close>.  \<open>bootimage_size\<close> and \<open>pagealign\<close> are declared in a header outside
  the files modelled here and are parameters.  The result is \<open>None\<close> where the C code
  dereferences a \<open>NULL\<close> \<open>bio\<close>.
\<close>

definition flash_zimage ::
  "(boot_img_hdr \<Rightarrow> u64) \<Rightarrow> (boot_img_hdr \<Rightarrow> u64 \<Rightarrow> u64) \<Rightarrow> zimage_env \<Rightarrow> u64 \<Rightarrow>
   flash_state \<Rightarrow> (efi_status \<times> flash_state) option" where
  "flash_zimage bootimage_size pagealign env sz s =
     (case boot_part env of
        Inl ret \<Rightarrow> Some (ret, s)
      | Inr g \<Rightarrow>
          let s1 = s\<lparr>gparti := g\<rparr> in
          if bio_null g then None
          else
            let partlen = (ending_lba g + 1 - starting_lba g) * ucast (BlockSize g) in
            if \<not> alloc_bootimage env then Some (EFI_OUT_OF_RESOURCES, s1)
            else
              (case read_disk env of
                 Inl ret \<Rightarrow> Some (ret, s1)
               | Inr bootimage \<Rightarrow>
                   if img_magic bootimage \<noteq> BOOT_MAGIC then Some (EFI_UNSUPPORTED, s1)
                   else
                     let new_size = bootimage_size bootimage - ucast (kernel_size bootimage)
                                    + pagealign bootimage sz in
                     if new_size > partlen then Some (EFI_INVALID_PARAMETER, s1)
                     else if \<not> alloc_new_bootimage env then Some (EFI_OUT_OF_RESOURCES, s1)
                     else Some (flash_write (write_disk env) new_size
                                  (s1\<lparr>cur_offset := starting_lba g * ucast (BlockSize g)\<rparr>))))"

subsection \<open>The range check\<close>

lemma flash_skip_success_checked:
  "flash_skip sz s = Some (EFI_SUCCESS, s') \<Longrightarrow>
   part_start (gparti s) \<le> cur_offset s \<and> cur_offset s + sz \<le> part_end (gparti s)
   \<and> s' = s\<lparr>cur_offset := cur_offset s + sz\<rparr>"
  by (auto simp: flash_skip_def is_inside_partition_def split: if_splits)

lemma flash_skip_outside:
  "\<not> bio_null (gparti s) \<Longrightarrow>
   \<not> (part_start (gparti s) \<le> cur_offset s \<and> cur_offset s + sz \<le> part_end (gparti s)) \<Longrightarrow>
   flash_skip sz s = Some (EFI_INVALID_PARAMETER, s)"
  by (auto simp: flash_skip_def is_inside_partition_def)

lemma flash_write_outside:
  "\<not> (part_start (gparti s) \<le> cur_offset s \<and> cur_offset s + sz \<le> part_end (gparti s)) \<Longrightarrow>
   flash_write wd sz s = (EFI_INVALID_PARAMETER, s)"
  by (auto simp: flash_write_def is_inside_partition_def)

lemma flash_write_success_checked:
  "flash_write wd sz s = (EFI_SUCCESS, s') \<Longrightarrow>
   part_start (gparti s) \<le> cur_offset s \<and> cur_offset s + sz \<le> part_end (gparti s)"
  by (auto simp: flash_write_def is_inside_partition_def split: if_splits)

lemma flash_write_no_wrap_inside:
  assumes "flash_write wd sz s = (ret, s')" and "disk_writes s' \<noteq> disk_writes s"
    and "unat (cur_offset s) + unat sz < 2 ^ 64"
  shows "disk_writes s' = disk_writes s @ [(cur_offset s, sz)]
         \<and> unat (part_start (gparti s)) \<le> unat (cur_offset s)
         \<and> unat (cur_offset s) + unat sz \<le> unat (part_end (gparti s))"
proof -
  have in_p: "is_inside_partition (gparti s) (cur_offset s) sz" and nb: "\<not> bio_null (gparti s)"
    using assms(1,2) by (auto simp: flash_write_def split: if_splits)
  have w: "disk_writes s' = disk_writes s @ [(cur_offset s, sz)]"
    using assms(1) in_p nb by (auto simp: flash_write_def)
  have "unat (cur_offset s + sz) = unat (cur_offset s) + unat sz"
    using assms(3) by (simp add: unat_word_ariths)
  then show ?thesis using in_p w by (simp add: is_inside_partition_def word_le_nat_alt)
qed

text \<open>
  A partition of eight 512-byte blocks starting at LBA 8 (bytes 4096 to 8192), with the
  cursor at its first byte; and a partition of 16 GiB that starts 16 GiB into the disk,
  with the cursor at its first byte.
\<close>

definition small_partition :: gpt_partition_interface where
  "small_partition = \<lparr>bio_null = False, BlockSize = 512, starting_lba = 8, ending_lba = 15\<rparr>"

definition at_partition_start :: flash_state where
  "at_partition_start = \<lparr>gparti = small_partition, cur_offset = 4096, disk_writes = []\<rparr>"

definition data_partition :: gpt_partition_interface where
  "data_partition = \<lparr>bio_null = False, BlockSize = 512, starting_lba = 33554432,
                      ending_lba = 67108863\<rparr>"

definition at_data_start :: flash_state where
  "at_data_start = \<lparr>gparti = data_partition, cur_offset = 17179869184, disk_writes = []\<rparr>"

text \<open>
  Claim C3.  The claim: a write through \<open>flash_write\<close> and an advance through
  \<open>flash_skip\<close> succeed only when the range from the cursor on, of the given size, lies
  inside the partition's byte range, and the cursor stays inside it.  The test
  \<open>off + sz <= part_end\<close> is made on \<open>UINT64\<close> values, and the sum wraps around.  With
  the cursor at byte 4096 of the partition of bytes 4096 to 8192 and the size
  \<open>0xFFFFFFFFFFFFFFFF\<close>, the sum is 4095, the test passes, \<open>flash_skip\<close> returns
  \<open>EFI_SUCCESS\<close> and leaves the cursor at 4095, below the first byte of the partition,
  and \<open>flash_write\<close> hands \<open>WriteDisk\<close> a range that ends far beyond the partition.
  With the cursor at the start of the partition that begins at 16 GiB, a skip of
  \<open>0xFFFFFFFF\<close> blocks of \<open>0xFFFFFFFF\<close> bytes (the largest product of two 32-bit
  fields of a sparse image) succeeds and leaves the cursor at 8 GiB + 1, outside the
  partition.
\<close>

theorem flash_range_check_wraps:
  "part_start small_partition = 4096 \<and> part_end small_partition = 8192
   \<and> flash_skip 0xFFFFFFFFFFFFFFFF at_partition_start
       = Some (EFI_SUCCESS, at_partition_start\<lparr>cur_offset := 4095\<rparr>)
   \<and> flash_write EFI_SUCCESS 0xFFFFFFFFFFFFFFFF at_partition_start
       = (EFI_SUCCESS, at_partition_start\<lparr>disk_writes := [(4096, 0xFFFFFFFFFFFFFFFF)],
                                           cur_offset := 4095\<rparr>)
   \<and> part_start data_partition = 17179869184 \<and> part_end data_partition = 34359738368
   \<and> flash_skip (0xFFFFFFFF * 0xFFFFFFFF) at_data_start
       = Some (EFI_SUCCESS, at_data_start\<lparr>cur_offset := 8589934593\<rparr>)"
  by (simp add: flash_skip_def flash_write_def is_inside_partition_def part_start_def part_end_def
      small_partition_def at_partition_start_def data_partition_def at_data_start_def)

subsection \<open>The size of the spliced image\<close>

text \<open>
  The size \<open>flash_zimage\<close> computes for the new image, and the length of a partition, as
  the C expressions have them (in \<open>UINTN\<close>, 64 bits).
\<close>

definition zimage_new_size ::
  "(boot_img_hdr \<Rightarrow> u64) \<Rightarrow> (boot_img_hdr \<Rightarrow> u64 \<Rightarrow> u64) \<Rightarrow> boot_img_hdr \<Rightarrow> u64 \<Rightarrow> u64" where
  "zimage_new_size bootimage_size pagealign old sz =
     bootimage_size old - ucast (kernel_size old) + pagealign old sz"

definition partition_len :: "gpt_partition_interface \<Rightarrow> u64" where
  "partition_len g = (ending_lba g + 1 - starting_lba g) * ucast (BlockSize g)"

lemma flash_zimage_cases:
  assumes "boot_part env = Inr g" and "\<not> bio_null g" and "alloc_bootimage env"
    and "read_disk env = Inr old"
  shows "flash_zimage bootimage_size pagealign env sz s =
     Some (if img_magic old \<noteq> BOOT_MAGIC then (EFI_UNSUPPORTED, s\<lparr>gparti := g\<rparr>)
           else if zimage_new_size bootimage_size pagealign old sz > partition_len g
                then (EFI_INVALID_PARAMETER, s\<lparr>gparti := g\<rparr>)
           else if \<not> alloc_new_bootimage env then (EFI_OUT_OF_RESOURCES, s\<lparr>gparti := g\<rparr>)
           else flash_write (write_disk env) (zimage_new_size bootimage_size pagealign old sz)
                  (s\<lparr>gparti := g, cur_offset := part_start g\<rparr>))"
  using assms
  by (simp add: flash_zimage_def zimage_new_size_def partition_len_def part_start_def Let_def)

lemma flash_write_writes:
  "flash_write wd sz s = (ret, s') \<Longrightarrow>
   disk_writes s' = disk_writes s \<or> disk_writes s' = disk_writes s @ [(cur_offset s, sz)]"
  by (auto simp: flash_write_def split: if_splits)

text \<open>
  Claim C8.  \<open>flash_zimage\<close> on a boot partition that is found and read.  When the
  bytes read do not start with the magic \<open>ANDROID!\<close> it returns \<open>EFI_UNSUPPORTED\<close> and
  nothing is written.  When they do and the new size, which is the size of the old
  boot image minus its \<open>kernel_size\<close> field plus the page-aligned size of the new
  kernel, exceeds the length of the partition, it returns \<open>EFI_INVALID_PARAMETER\<close> and
  nothing is written.  And whenever it writes, it writes once, at the first byte of the
  partition, exactly that new size.
\<close>

theorem flash_zimage_size_and_errors:
  assumes "boot_part env = Inr g" and "\<not> bio_null g" and "alloc_bootimage env"
    and "read_disk env = Inr old"
    and "flash_zimage bootimage_size pagealign env sz s = Some (ret, s')"
  shows "(img_magic old \<noteq> BOOT_MAGIC \<longrightarrow> ret = EFI_UNSUPPORTED \<and> disk_writes s' = disk_writes s)
    \<and> (img_magic old = BOOT_MAGIC
         \<and> zimage_new_size bootimage_size pagealign old sz > partition_len g
        \<longrightarrow> ret = EFI_INVALID_PARAMETER \<and> disk_writes s' = disk_writes s)
    \<and> (disk_writes s' \<noteq> disk_writes s
        \<longrightarrow> disk_writes s' = disk_writes s @
              [(part_start g, bootimage_size old - ucast (kernel_size old) + pagealign old sz)])"
proof -
  note c = flash_zimage_cases [OF assms(1-4), of bootimage_size pagealign sz s]
  have a: "img_magic old \<noteq> BOOT_MAGIC \<longrightarrow> ret = EFI_UNSUPPORTED \<and> disk_writes s' = disk_writes s"
    using c assms(5) by auto
  have b: "img_magic old = BOOT_MAGIC
         \<and> zimage_new_size bootimage_size pagealign old sz > partition_len g
        \<longrightarrow> ret = EFI_INVALID_PARAMETER \<and> disk_writes s' = disk_writes s"
    using c assms(5) by auto
  have d: "disk_writes s' \<noteq> disk_writes s
        \<longrightarrow> disk_writes s' = disk_writes s @
              [(part_start g, bootimage_size old - ucast (kernel_size old) + pagealign old sz)]"
  proof
    assume ne: "disk_writes s' \<noteq> disk_writes s"
    then have w: "flash_write (write_disk env) (zimage_new_size bootimage_size pagealign old sz)
                  (s\<lparr>gparti := g, cur_offset := part_start g\<rparr>) = (ret, s')"
      using c assms(5) by (auto split: if_splits)
    show "disk_writes s' = disk_writes s @
              [(part_start g, bootimage_size old - ucast (kernel_size old) + pagealign old sz)]"
      using flash_write_writes [OF w] ne by (simp add: zimage_new_size_def)
  qed
  show ?thesis using a b d by blast
qed

text \<open>A boot partition of 64 blocks at LBA 2048, holding an image with a 3000-byte kernel.\<close>

definition boot_partition :: gpt_partition_interface where
  "boot_partition = \<lparr>bio_null = False, BlockSize = 512, starting_lba = 2048, ending_lba = 2111\<rparr>"

definition old_image :: boot_img_hdr where
  "old_image = \<lparr>img_magic = ''ANDROID!'', kernel_size = 3000, ramdisk_size = 100,
                 second_size = 0, page_size = 2048\<rparr>"

definition healthy_env :: "boot_img_hdr \<Rightarrow> zimage_env" where
  "healthy_env h = \<lparr>boot_part = Inr boot_partition, alloc_bootimage = True, read_disk = Inr h,
                    alloc_new_bootimage = True, write_disk = EFI_SUCCESS\<rparr>"

definition idle_flash :: flash_state where
  "idle_flash = \<lparr>gparti = \<lparr>bio_null = True, BlockSize = 0, starting_lba = 0, ending_lba = 0\<rparr>,
                 cur_offset = 0, disk_writes = []\<rparr>"

theorem flash_zimage_size_and_errors_witness:
  "flash_zimage (\<lambda>h. 8192) (\<lambda>h n. 4096) (healthy_env old_image) 4000 idle_flash
     = Some (EFI_SUCCESS, \<lparr>gparti = boot_partition, cur_offset = 1048576 + 9288,
                            disk_writes = [(1048576, 8192 - 3000 + 4096)]\<rparr>)
   \<and> flash_zimage (\<lambda>h. 8192) (\<lambda>h n. 40960) (healthy_env old_image) 40000 idle_flash
     = Some (EFI_INVALID_PARAMETER, idle_flash\<lparr>gparti := boot_partition\<rparr>)
   \<and> flash_zimage (\<lambda>h. 8192) (\<lambda>h n. 4096) (healthy_env (old_image\<lparr>img_magic := ''''\<rparr>)) 4000 idle_flash
     = Some (EFI_UNSUPPORTED, idle_flash\<lparr>gparti := boot_partition\<rparr>)"
  using flash_zimage_size_and_errors [of "healthy_env old_image" boot_partition old_image
      "\<lambda>h. 8192" "\<lambda>h n. 4096" 4000 idle_flash EFI_SUCCESS
      "\<lparr>gparti = boot_partition, cur_offset = 1048576 + 9288, disk_writes = [(1048576, 9288)]\<rparr>"]
  by (simp add: flash_zimage_def healthy_env_def old_image_def boot_partition_def idle_flash_def
      BOOT_MAGIC_def flash_write_def is_inside_partition_def part_start_def part_end_def)


section \<open>Fastboot protocol server (libfastboot/fastboot.c)\<close>

subsection \<open>State\<close>

datatype fastboot_states =
    STATE_OFFLINE
  | STATE_COMMAND
  | STATE_COMPLETE
  | STATE_START_DOWNLOAD
  | STATE_DOWNLOAD
  | STATE_TX
  | STATE_STOPPING
  | STATE_STOPPED
  | STATE_ERROR

text \<open>The boot targets the fastboot commands name, of \<open>enum boot_target\<close>.\<close>

datatype boot_target = UNKNOWN_TARGET | NORMAL_BOOT | FASTBOOT

text \<open>
  \<open>struct fastboot_var\<close>.  Strings are C strings: the characters before the
  terminating NUL.  \<open>get_value\<close> is \<open>None\<close> for a \<open>NULL\<close> function pointer; a getter is
  given by what a call of it returns, \<open>None\<close> for \<open>NULL\<close>.
\<close>

record fastboot_var =
  var_name :: string
  var_value :: string
  get_value :: "string option option"

text \<open>
  The file-level variables of \<open>fastboot.c\<close>: the variable list (head first), the two
  protocol states, the queue of frames waiting for transmission, the download buffer
  (\<open>None\<close> for \<open>NULL\<close>, otherwise the size it was allocated with) with \<open>dlsize\<close> and
  \<open>bufsize\<close>, the command buffer, and what \<open>fastboot_stop\<close> leaves for
  \<open>fastboot_start\<close>: the image, its size and the boot target.  Two fields record what leaves the module:
  \<open>wire\<close>, the messages handed to \<open>transport_write\<close>, oldest first, and \<open>flash_calls\<close>,
  the calls of the flash engine \<open>flash\<close>, each with its label and size.
\<close>

record fastboot =
  varlist :: "fastboot_var list"
  fastboot_state :: fastboot_states
  next_state :: fastboot_states
  txbuf :: "string list"
  dlbuffer :: "u64 option"
  dlsize :: u32
  bufsize :: u32
  command_buffer :: string
  received_len :: u32
  last_received_len :: u32
  fastboot_bootimage :: "8 word list option"
  fastboot_efiimage :: "8 word list option"
  fastboot_imagesize :: u64
  fastboot_target :: boot_target
  wire :: "string list"
  flash_calls :: "(string \<times> u32) list"

text \<open>
  What the code takes from outside \<open>fastboot.c\<close>: compile-time constants declared in
  headers that are not among the files modelled here (the value of the enumerator \<open>LOCKED\<close>,
  whether \<open>BOOTLOADER_POLICY\<close> is defined, the label \<open>ACTION_AUTHORIZATION\<close>,
  \<open>MAX_DOWNLOAD_SIZE\<close>), and the answers of collaborators: the current lock state and its
  name, the status \<open>transport_write\<close> returns for a message, whether allocations
  succeed, \<open>strtoul\<close> in base 16, the flash engine's status for a label, the text of
  a status under the format \<open>%r\<close>, and \<open>publish_partsize\<close> as a function on the
  variable list.
\<close>

record env =
  LOCKED :: int
  BOOTLOADER_POLICY :: bool
  ACTION_AUTHORIZATION :: string
  MAX_DOWNLOAD_SIZE :: u64
  get_current_state :: int
  get_current_state_string :: string
  transport_write :: "string \<Rightarrow> efi_status"
  alloc_txbuf :: bool
  alloc_var :: bool
  alloc_label :: bool
  alloc_dlbuffer :: "u64 \<Rightarrow> bool"
  alloc_image :: bool
  strtoul16 :: "string \<Rightarrow> u64"
  flash :: "string \<Rightarrow> u32 \<Rightarrow> efi_status"
  status_string :: "efi_status \<Rightarrow> string"
  publish_partsize :: "fastboot_var list \<Rightarrow> efi_status \<times> fastboot_var list"

subsection \<open>Replies\<close>

text \<open>
  Modelled from the spec: \<open>MAGIC_LENGTH\<close> is declared outside the files modelled here; the
  spec gives the length of a reply frame as 64 bytes.
\<close>

definition MAGIC_LENGTH :: nat where "MAGIC_LENGTH = 64"
definition CODE_LENGTH :: nat where "CODE_LENGTH = 4"
definition INFO_PAYLOAD :: nat where "INFO_PAYLOAD = MAGIC_LENGTH - CODE_LENGTH"
definition MAX_VARIABLE_LENGTH :: nat where "MAX_VARIABLE_LENGTH = 64"

text \<open>
  \<open>fastboot_build_ack_msg\<close>: the code, then the formatted text cut by \<open>vsnprintf\<close> to
  the \<open>INFO_PAYLOAD - 1\<close> characters that fit before the NUL.  The argument \<open>txt\<close> is
  the text already formatted; the message is the C string at the start of the frame.
\<close>

definition fastboot_build_ack_msg :: "string \<Rightarrow> string \<Rightarrow> string" where
  "fastboot_build_ack_msg code txt = take CODE_LENGTH code @ take (INFO_PAYLOAD - 1) txt"

definition fastboot_ack :: "env \<Rightarrow> string \<Rightarrow> string \<Rightarrow> fastboot \<Rightarrow> fastboot" where
  "fastboot_ack e code txt s =
     (let msg = fastboot_build_ack_msg code txt;
          s1 = s\<lparr>fastboot_state := next_state s\<rparr>;
          ret = transport_write e msg;
          s2 = s1\<lparr>wire := wire s1 @ [msg]\<rparr>
      in if EFI_ERROR ret then s2\<lparr>fastboot_state := STATE_ERROR\<rparr> else s2)"

definition fastboot_ack_buffered :: "env \<Rightarrow> string \<Rightarrow> string \<Rightarrow> fastboot \<Rightarrow> fastboot" where
  "fastboot_ack_buffered e code txt s =
     (if \<not> alloc_txbuf e then s
      else s\<lparr>txbuf := txbuf s @ [fastboot_build_ack_msg code txt], fastboot_state := STATE_TX\<rparr>)"

definition fastboot_info :: "env \<Rightarrow> string \<Rightarrow> fastboot \<Rightarrow> fastboot" where
  "fastboot_info e txt s = fastboot_ack_buffered e ''INFO'' txt s"

definition fastboot_fail :: "env \<Rightarrow> string \<Rightarrow> fastboot \<Rightarrow> fastboot" where
  "fastboot_fail e txt s =
     (if fastboot_state s = STATE_TX then fastboot_ack_buffered e ''FAIL'' txt s
      else fastboot_ack e ''FAIL'' txt s)"

definition fastboot_okay :: "env \<Rightarrow> string \<Rightarrow> fastboot \<Rightarrow> fastboot" where
  "fastboot_okay e txt s =
     (if fastboot_state s = STATE_TX then fastboot_ack_buffered e ''OKAY'' txt s
      else fastboot_ack e ''OKAY'' txt s)"

text \<open>
  \<open>flush_tx_buffer\<close> takes the head of the queue; on an empty queue the C code
  dereferences \<open>NULL\<close>, which is the value \<open>None\<close>.
\<close>

definition flush_tx_buffer :: "env \<Rightarrow> fastboot \<Rightarrow> fastboot option" where
  "flush_tx_buffer e s =
     (case txbuf s of
        [] \<Rightarrow> None
      | msg # rest \<Rightarrow>
          let s1 = s\<lparr>txbuf := rest\<rparr>;
              s2 = (if rest = [] then s1\<lparr>fastboot_state := next_state s1\<rparr> else s1);
              ret = transport_write e msg;
              s3 = s2\<lparr>wire := wire s2 @ [msg]\<rparr>
          in Some (if EFI_ERROR ret then s3\<lparr>fastboot_state := STATE_ERROR\<rparr> else s3))"

subsection \<open>Variable registry\<close>

fun fastboot_getvar :: "string \<Rightarrow> fastboot_var list \<Rightarrow> fastboot_var option" where
  "fastboot_getvar nm [] = None"
| "fastboot_getvar nm (var # rest) = (if nm = var_name var then Some var else fastboot_getvar nm rest)"

text \<open>
  Storing through the pointer \<open>fastboot_getvar\<close> returns changes the first entry of
  that name, in place.
\<close>

fun update_var :: "string \<Rightarrow> (fastboot_var \<Rightarrow> fastboot_var) \<Rightarrow> fastboot_var list \<Rightarrow> fastboot_var list" where
  "update_var nm f [] = []"
| "update_var nm f (var # rest) = (if nm = var_name var then f var # rest else var # update_var nm f rest)"

text \<open>
  \<open>fastboot_getvar_or_create\<close>: \<open>None\<close> for the \<open>NULL\<close> result, otherwise the list, where
  a new zeroed entry of that name has become the head when none was there.
\<close>

definition fastboot_getvar_or_create :: "env \<Rightarrow> string \<Rightarrow> fastboot_var list \<Rightarrow> fastboot_var list option" where
  "fastboot_getvar_or_create e nm vars =
     (if length nm + 1 > MAX_VARIABLE_LENGTH then None
      else case fastboot_getvar nm vars of
             Some var \<Rightarrow> Some vars
           | None \<Rightarrow>
               if \<not> alloc_var e then None
               else Some (\<lparr>var_name = nm, var_value = [], get_value = None\<rparr> # vars))"

definition fastboot_publish :: "env \<Rightarrow> string \<Rightarrow> string \<Rightarrow> fastboot \<Rightarrow> efi_status \<times> fastboot" where
  "fastboot_publish e nm val s =
     (if length val + 1 > MAX_VARIABLE_LENGTH then (EFI_BUFFER_TOO_SMALL, s)
      else case fastboot_getvar_or_create e nm (varlist s) of
             None \<Rightarrow> (EFI_INVALID_PARAMETER, s)
           | Some vars \<Rightarrow>
               (EFI_SUCCESS, s\<lparr>varlist := update_var nm (\<lambda>var. var\<lparr>var_value := val\<rparr>) vars\<rparr>))"

definition fastboot_publish_dynamic :: "env \<Rightarrow> string \<Rightarrow> string option \<Rightarrow> fastboot \<Rightarrow> efi_status \<times> fastboot" where
  "fastboot_publish_dynamic e nm getter s =
     (case fastboot_getvar_or_create e nm (varlist s) of
        None \<Rightarrow> (EFI_INVALID_PARAMETER, s)
      | Some vars \<Rightarrow>
          (EFI_SUCCESS, s\<lparr>varlist := update_var nm (\<lambda>var. var\<lparr>get_value := Some getter\<rparr>) vars\<rparr>))"

definition MATCH_PART :: string where "MATCH_PART = ''partition-''"

text \<open>
  \<open>clean_partition_var\<close>: \<open>memcmp\<close> compares the first \<open>strlena (MATCH_PART)\<close> bytes of
  the zero-padded name array with \<open>MATCH_PART\<close>; the loop moves every entry that does
  not match to the head of the new list.
\<close>

definition is_partition_var :: "fastboot_var \<Rightarrow> bool" where
  "is_partition_var var = (take (length MATCH_PART) (var_name var) = MATCH_PART)"

fun clean_partition_var_loop :: "fastboot_var list \<Rightarrow> fastboot_var list \<Rightarrow> fastboot_var list" where
  "clean_partition_var_loop [] new_varlist = new_varlist"
| "clean_partition_var_loop (var # next) new_varlist =
     (if is_partition_var var then clean_partition_var_loop next new_varlist
      else clean_partition_var_loop next (var # new_varlist))"

definition clean_partition_var :: "fastboot \<Rightarrow> fastboot" where
  "clean_partition_var s = s\<lparr>varlist := clean_partition_var_loop (varlist s) []\<rparr>"

definition refresh_partition_var :: "env \<Rightarrow> fastboot \<Rightarrow> efi_status \<times> fastboot" where
  "refresh_partition_var e s =
     (let s1 = clean_partition_var s;
          (ret, vars) = publish_partsize e (varlist s1)
      in (ret, s1\<lparr>varlist := vars\<rparr>))"

text \<open>\<open>fastboot_var_value\<close>: the value a read of the variable yields.\<close>

definition fastboot_var_value :: "fastboot_var \<Rightarrow> string" where
  "fastboot_var_value var =
     (case get_value var of
        None \<Rightarrow> var_value var
      | Some None \<Rightarrow> []
      | Some (Some v) \<Rightarrow> if length v + 1 > MAX_VARIABLE_LENGTH then [] else v)"

subsection \<open>Command handlers\<close>

definition flash_locked_whitelist :: "env \<Rightarrow> string list" where
  "flash_locked_whitelist e = (if BOOTLOADER_POLICY e then [ACTION_AUTHORIZATION e] else [])"

fun is_in_white_list :: "string \<Rightarrow> string list \<Rightarrow> bool" where
  "is_in_white_list key [] = False"
| "is_in_white_list key (w # white_list) = (if key = w then True else is_in_white_list key white_list)"

text \<open>
  \<open>cmd_flash\<close>.  \<open>argv\<close> holds the tokens of the command line, \<open>argc\<close> their number as
  the dispatcher passes it.  The call of \<open>flash\<close> is recorded in \<open>flash_calls\<close>.
\<close>

definition cmd_flash :: "env \<Rightarrow> int \<Rightarrow> string list \<Rightarrow> fastboot \<Rightarrow> fastboot" where
  "cmd_flash e argc argv s =
     (if argc \<noteq> 2 then fastboot_fail e ''Invalid parameter'' s
      else if get_current_state e = LOCKED e
              \<and> \<not> is_in_white_list (argv ! 1) (flash_locked_whitelist e)
           then fastboot_fail e (''Prohibited command in '' @ get_current_state_string e @ '' state.'') s
      else if \<not> alloc_label e then fastboot_fail e ''Allocation error'' s
      else
        let ret = flash e (argv ! 1) (dlsize s);
            s1 = s\<lparr>flash_calls := flash_calls s @ [(argv ! 1, dlsize s)]\<rparr>
        in if EFI_ERROR ret then fastboot_fail e (''Flash failure: '' @ status_string e ret) s1
           else if ret = EFI_SUCCESS_REFRESH then
             (let (ret2, s2) = refresh_partition_var e s1
              in if EFI_ERROR ret2
                 then fastboot_fail e (''Failed to publish partition variables, '' @ status_string e ret2) s2
                 else fastboot_okay e [] s2)
           else fastboot_okay e [] s1)"

definition cmd_getvar :: "env \<Rightarrow> int \<Rightarrow> string list \<Rightarrow> fastboot \<Rightarrow> fastboot" where
  "cmd_getvar e argc argv s =
     (if argc \<noteq> 2 then fastboot_fail e ''Invalid parameter'' s
      else if argv ! 1 = ''all'' then
        fastboot_okay e []
          (foldl (\<lambda>t var. fastboot_info e (var_name var @ '': '' @ fastboot_var_value var) t)
             s (varlist s))
      else
        fastboot_okay e
          (case fastboot_getvar (argv ! 1) (varlist s) of
             Some var \<Rightarrow> fastboot_var_value var
           | None \<Rightarrow> [])
          s)"

text \<open>The format \<open>%08x\<close> of an \<open>unsigned\<close>: eight hexadecimal digits, lower case.\<close>

definition hex_digit :: "nat \<Rightarrow> char" where
  "hex_digit n = ''0123456789abcdef'' ! n"

definition hex8 :: "u32 \<Rightarrow> string" where
  "hex8 w = map (\<lambda>i. hex_digit (unat (drop_bit (4 * i) w AND 0xF))) [7, 6, 5, 4, 3, 2, 1, 0]"

definition cmd_download :: "env \<Rightarrow> int \<Rightarrow> string list \<Rightarrow> fastboot \<Rightarrow> fastboot" where
  "cmd_download e argc argv s =
     (if argc \<noteq> 2 then fastboot_fail e ''Invalid parameter'' s
      else
        let newdlsize = strtoul16 e (argv ! 1) in
        if newdlsize = 0 then fastboot_fail e ''no data to download'' s
        else if newdlsize > MAX_DOWNLOAD_SIZE e then fastboot_fail e ''data too large'' s
        else if newdlsize > ucast (bufsize s) \<and> \<not> alloc_dlbuffer e newdlsize then
          (fastboot_fail e ''Memory allocation failure'' (s\<lparr>dlbuffer := None\<rparr>))
            \<lparr>dlsize := 0, bufsize := 0\<rparr>
        else
          let s1 = (if newdlsize > ucast (bufsize s)
                    then s\<lparr>dlbuffer := Some newdlsize, bufsize := ucast newdlsize\<rparr> else s);
              s2 = s1\<lparr>dlsize := ucast newdlsize\<rparr>;
              response = ''DATA'' @ hex8 (dlsize s2);
              s3 = s2\<lparr>fastboot_state := STATE_START_DOWNLOAD\<rparr>;
              ret = transport_write e response;
              s4 = s3\<lparr>wire := wire s3 @ [response]\<rparr>
          in if EFI_ERROR ret then s4\<lparr>fastboot_state := STATE_ERROR\<rparr> else s4)"

text \<open>
  \<open>fastboot_stop\<close>: the image to hand over is copied into a fresh buffer of
  \<open>imagesize\<close> bytes; from \<open>STATE_COMPLETE\<close> the session stops at once, otherwise after
  the reply under way.
\<close>

definition fastboot_stop ::
  "env \<Rightarrow> 8 word list option \<Rightarrow> 8 word list option \<Rightarrow> u64 \<Rightarrow> boot_target \<Rightarrow> fastboot \<Rightarrow>
   efi_status \<times> fastboot" where
  "fastboot_stop e bootimage efiimage imagesize tgt s =
     (let s1 = s\<lparr>fastboot_imagesize := imagesize, fastboot_target := tgt\<rparr>;
          copy = (imagesize \<noteq> 0 \<and> (bootimage \<noteq> None \<or> efiimage \<noteq> None))
      in if copy \<and> \<not> alloc_image e then (EFI_OUT_OF_RESOURCES, s1)
         else
           let imgbuffer =
                 (if copy
                  then Some (take (unat imagesize)
                               (case bootimage of Some b \<Rightarrow> b | None \<Rightarrow> the efiimage))
                  else None);
               s2 = s1\<lparr>fastboot_bootimage := (if bootimage \<noteq> None then imgbuffer else None),
                       fastboot_efiimage := (if efiimage \<noteq> None then imgbuffer else None)\<rparr>
           in (EFI_SUCCESS,
               if fastboot_state s2 = STATE_COMPLETE then s2\<lparr>fastboot_state := STATE_STOPPED\<rparr>
               else s2\<lparr>next_state := STATE_STOPPING\<rparr>))"

definition fastboot_reboot :: "env \<Rightarrow> boot_target \<Rightarrow> fastboot \<Rightarrow> fastboot" where
  "fastboot_reboot e tgt s =
     (let (ret, s1) = fastboot_stop e None None 0 tgt s
      in if EFI_ERROR ret then fastboot_fail e ''Failed to stop transport'' s1
         else fastboot_okay e [] s1)"

definition cmd_continue :: "env \<Rightarrow> int \<Rightarrow> string list \<Rightarrow> fastboot \<Rightarrow> fastboot" where
  "cmd_continue e argc argv s = fastboot_reboot e NORMAL_BOOT s"

definition cmd_reboot :: "env \<Rightarrow> int \<Rightarrow> string list \<Rightarrow> fastboot \<Rightarrow> fastboot" where
  "cmd_reboot e argc argv s = fastboot_reboot e NORMAL_BOOT s"

definition cmd_reboot_bootloader :: "env \<Rightarrow> int \<Rightarrow> string list \<Rightarrow> fastboot \<Rightarrow> fastboot" where
  "cmd_reboot_bootloader e argc argv s = fastboot_reboot e FASTBOOT s"

subsection \<open>Command registry and dispatch\<close>

record fastboot_cmd =
  cmd_name :: string
  min_state :: int
  handle :: "env \<Rightarrow> int \<Rightarrow> string list \<Rightarrow> fastboot \<Rightarrow> fastboot"

fun get_cmd :: "fastboot_cmd list \<Rightarrow> string \<Rightarrow> fastboot_cmd option" where
  "get_cmd [] nm = None"
| "get_cmd (cmd # rest) nm = (if nm = cmd_name cmd then Some cmd else get_cmd rest nm)"

definition fastboot_run_cmd ::
  "env \<Rightarrow> fastboot_cmd list \<Rightarrow> string \<Rightarrow> int \<Rightarrow> string list \<Rightarrow> fastboot \<Rightarrow> fastboot" where
  "fastboot_run_cmd e list nm argc argv s =
     (case get_cmd list nm of
        None \<Rightarrow> fastboot_fail e ''unknown command'' s
      | Some cmd \<Rightarrow>
          if min_state cmd > get_current_state e
          then fastboot_fail e (''command not allowed in '' @ get_current_state_string e @ '' state'') s
          else handle cmd e argc argv s)"

subsection \<open>Command line\<close>

text \<open>
  Modelled from the spec: \<open>strtok_r\<close> is defined outside the files modelled here; it is the
  tokenizer of the C library, which the spec's splitting of the command line rests on.
  From the text that follows the save pointer it skips the delimiters in front, and
  returns no token when nothing is left; otherwise the token runs up to the next
  delimiter, which it overwrites with NUL, and the save pointer moves behind it.  The
  result is the token and the text after the new save pointer.
\<close>

definition strtok_r :: "string \<Rightarrow> string \<Rightarrow> string option \<times> string" where
  "strtok_r delim str =
     (let r = dropWhile (\<lambda>c. c \<in> set delim) str
      in if r = [] then (None, [])
         else (Some (takeWhile (\<lambda>c. c \<notin> set delim) r),
               drop 1 (dropWhile (\<lambda>c. c \<notin> set delim) r)))"

text \<open>
  The loop of \<open>get_command_buffer_argv\<close>: \<open>n\<close> is the number of rounds left before
  \<open>*argc\<close> reaches \<open>max_argc\<close>, \<open>token\<close> the value the variable \<open>token\<close> holds.  It
  yields the tokens stored, the last value of \<open>token\<close> and the text after the save pointer.
\<close>

fun argv_loop :: "nat \<Rightarrow> string \<Rightarrow> string option \<Rightarrow> string list \<times> string option \<times> string" where
  "argv_loop 0 saveptr token = ([], token, saveptr)"
| "argv_loop (Suc n) saveptr token =
     (case strtok_r '' '' saveptr of
        (None, saveptr') \<Rightarrow> ([], None, saveptr')
      | (Some tok, saveptr') \<Rightarrow>
          (case argv_loop n saveptr' (Some tok) of
             (toks, token', saveptr'') \<Rightarrow> (tok # toks, token', saveptr'')))"

text \<open>\<open>get_command_buffer_argv\<close>: a status, or \<open>argc\<close> with \<open>argv\<close>.\<close>

definition get_command_buffer_argv :: "string \<Rightarrow> nat \<Rightarrow> efi_status + (int \<times> string list)" where
  "get_command_buffer_argv buf max_argc =
     (case strtok_r '': '' buf of
        (None, saveptr) \<Rightarrow> Inl EFI_INVALID_PARAMETER
      | (Some argv0, saveptr) \<Rightarrow>
          (case argv_loop (max_argc - 1) saveptr None of
             (toks, token, saveptr') \<Rightarrow>
               if token \<noteq> None \<and> fst (strtok_r '' '' saveptr') \<noteq> None
               then Inl EFI_INVALID_PARAMETER
               else Inr (1 + int (length toks), argv0 # toks)))"

text \<open>
  What is left of the command buffer as a C string once \<open>strtok_r\<close> has been through
  it: the delimiters in front and the first token, since the delimiter after that
  token has become a NUL.
\<close>

definition tokenized_buffer :: "string \<Rightarrow> string" where
  "tokenized_buffer buf =
     takeWhile (\<lambda>c. c \<in> set '': '') buf
     @ takeWhile (\<lambda>c. c \<notin> set '': '') (dropWhile (\<lambda>c. c \<in> set '': '') buf)"

definition MAX_ARGS :: nat where "MAX_ARGS = 16"

text \<open>
  \<open>fastboot_run_command\<close> with the root command list \<open>cmdlist\<close>; \<open>None\<close> where
  \<open>flush_tx_buffer\<close> would run on an empty queue.
\<close>

definition fastboot_run_command :: "env \<Rightarrow> fastboot_cmd list \<Rightarrow> fastboot \<Rightarrow> fastboot option" where
  "fastboot_run_command e cmdlist s =
     (if fastboot_state s \<noteq> STATE_COMMAND then Some s
      else
        let s0 = s\<lparr>command_buffer := tokenized_buffer (command_buffer s)\<rparr> in
        case get_command_buffer_argv (command_buffer s) MAX_ARGS of
          Inl ret \<Rightarrow> Some s0
        | Inr (argc, argv) \<Rightarrow>
            let s1 = fastboot_run_cmd e cmdlist (argv ! 0) argc argv s0;
                s2 = s1\<lparr>received_len := 0, last_received_len := 0\<rparr>
            in if fastboot_state s2 = STATE_TX then flush_tx_buffer e s2 else Some s2)"

subsection \<open>Properties of the variable registry\<close>

lemma clean_loop_rev_filter:
  "clean_partition_var_loop vars acc = rev (filter (\<lambda>v. \<not> is_partition_var v) vars) @ acc"
  by (induction vars arbitrary: acc) simp_all

lemma getvar_Some_name: "fastboot_getvar nm vars = Some v \<Longrightarrow> var_name v = nm \<and> v \<in> set vars"
  by (induction vars) (auto split: if_splits)

lemma getvar_None_iff: "(fastboot_getvar nm vars = None) = (nm \<notin> var_name ` set vars)"
  by (induction vars) auto

lemma getvar_distinct:
  "distinct (map var_name vars) \<Longrightarrow> v \<in> set vars \<Longrightarrow> fastboot_getvar (var_name v) vars = Some v"
  by (induction vars) (auto simp: image_iff)

lemma getvar_update_same:
  "fastboot_getvar nm vars = Some v \<Longrightarrow> var_name (f v) = nm \<Longrightarrow>
   fastboot_getvar nm (update_var nm f vars) = Some (f v)"
  by (induction vars) (auto split: if_splits)

lemma getvar_update_other:
  "nm' \<noteq> nm \<Longrightarrow> (\<And>v. var_name (f v) = var_name v) \<Longrightarrow>
   fastboot_getvar nm' (update_var nm f vars) = fastboot_getvar nm' vars"
  by (induction vars) auto

lemma update_var_names:
  "(\<And>v. var_name (f v) = var_name v) \<Longrightarrow> map var_name (update_var nm f vars) = map var_name vars"
  by (induction vars) auto

lemma getvar_clean:
  assumes "distinct (map var_name vars)"
  shows "fastboot_getvar nm (clean_partition_var_loop vars []) =
         (if take (length MATCH_PART) nm = MATCH_PART then None else fastboot_getvar nm vars)"
proof -
  let ?c = "rev (filter (\<lambda>v. \<not> is_partition_var v) vars)"
  have d: "distinct (map var_name ?c)"
    using assms by (simp add: rev_map [symmetric] distinct_map_filter)
  show ?thesis
  proof (cases "fastboot_getvar nm ?c")
    case None
    then have n: "nm \<notin> var_name ` set ?c" by (simp add: getvar_None_iff)
    show ?thesis
    proof (cases "fastboot_getvar nm vars")
      case None
      with \<open>fastboot_getvar nm ?c = None\<close> show ?thesis by (simp add: clean_loop_rev_filter)
    next
      case (Some v)
      have "var_name v = nm" "v \<in> set vars" using getvar_Some_name [OF Some] by simp_all
      with n have "is_partition_var v" by force
      then show ?thesis using \<open>var_name v = nm\<close> \<open>fastboot_getvar nm ?c = None\<close>
        by (simp add: clean_loop_rev_filter is_partition_var_def)
    qed
  next
    case (Some v)
    have v: "var_name v = nm" "v \<in> set ?c" using getvar_Some_name [OF Some] by simp_all
    then have "v \<in> set vars" "\<not> is_partition_var v" by auto
    then have "fastboot_getvar nm vars = Some v" using getvar_distinct [OF assms] v(1) by auto
    then show ?thesis using Some v \<open>\<not> is_partition_var v\<close>
      by (simp add: clean_loop_rev_filter is_partition_var_def)
  qed
qed

lemma publish_keeps_distinct:
  assumes "distinct (map var_name (varlist s))"
  shows "distinct (map var_name (varlist (snd (fastboot_publish e nm val s))))"
proof (cases "fastboot_getvar nm (varlist s)")
  case None
  then have "nm \<notin> var_name ` set (varlist s)" by (simp add: getvar_None_iff)
  then show ?thesis using assms None
    by (auto simp: fastboot_publish_def fastboot_getvar_or_create_def update_var_names)
next
  case (Some var)
  then show ?thesis using assms
    by (auto simp: fastboot_publish_def fastboot_getvar_or_create_def update_var_names)
qed

lemma clean_keeps_distinct:
  "distinct (map var_name (varlist s)) \<Longrightarrow> distinct (map var_name (varlist (clean_partition_var s)))"
  by (simp add: clean_partition_var_def clean_loop_rev_filter rev_map [symmetric] distinct_map_filter)

lemma length_MATCH_PART: "length MATCH_PART = 10"
  by (simp add: MATCH_PART_def)

lemma is_partition_var_prefix: "is_partition_var v = (take 10 (var_name v) = ''partition-'')"
  unfolding is_partition_var_def length_MATCH_PART by (simp only: MATCH_PART_def)

lemma publish_found:
  assumes "fastboot_getvar nm (varlist s) = Some var"
    and "length nm < MAX_VARIABLE_LENGTH" and "length val < MAX_VARIABLE_LENGTH"
  shows "fastboot_publish e nm val s =
         (EFI_SUCCESS, s\<lparr>varlist := update_var nm (\<lambda>v. v\<lparr>var_value := val\<rparr>) (varlist s)\<rparr>)"
  using assms by (simp add: fastboot_publish_def fastboot_getvar_or_create_def)

text \<open>A development environment and a small registry, for the concrete instances below.\<close>

definition test_env :: env where
  "test_env = \<lparr>LOCKED = 0, BOOTLOADER_POLICY = True, ACTION_AUTHORIZATION = ''authorization'',
     MAX_DOWNLOAD_SIZE = 0x10000000, get_current_state = 0, get_current_state_string = ''LOCKED'',
     transport_write = (\<lambda>msg. EFI_SUCCESS), alloc_txbuf = True, alloc_var = True,
     alloc_label = True, alloc_dlbuffer = (\<lambda>n. True), alloc_image = True,
     strtoul16 = (\<lambda>str. 4096),
     flash = (\<lambda>label n. EFI_SUCCESS), status_string = (\<lambda>ret. ''Error''),
     publish_partsize = (\<lambda>vars. (EFI_SUCCESS, vars))\<rparr>"

definition test_vars :: "fastboot_var list" where
  "test_vars =
     [\<lparr>var_name = ''partition-size:boot'', var_value = ''0x2000000'', get_value = None\<rparr>,
      \<lparr>var_name = ''has-slot:boot'', var_value = ''no'', get_value = None\<rparr>,
      \<lparr>var_name = ''product'', var_value = ''yt2'', get_value = None\<rparr>]"

definition test_session :: fastboot where
  "test_session = \<lparr>varlist = test_vars, fastboot_state = STATE_COMMAND, next_state = STATE_COMPLETE,
     txbuf = [], dlbuffer = None, dlsize = 0, bufsize = 0, command_buffer = [],
     received_len = 0, last_received_len = 0, fastboot_bootimage = None,
     fastboot_efiimage = None, fastboot_imagesize = 0, fastboot_target = UNKNOWN_TARGET,
     wire = [], flash_calls = []\<rparr>"

text \<open>
  Claim C7.  Publishing a value (of at most 63 characters) under a name that is
  already present succeeds and overwrites the stored value in place: a lookup of the
  name then finds the entry with the new value, which is also what a read yields when
  the entry has no getter; the names in the list, hence their number, are as before,
  and the entries of other names are untouched.  \<open>clean_partition_var\<close> keeps exactly
  the entries whose name does not begin with \<open>partition-\<close>, each unchanged; on a list
  of distinct names (which publishing maintains) a lookup afterwards finds nothing
  under a name with that prefix and the same entry as before under any other name.
\<close>

theorem publish_overwrites_clean_removes:
  assumes "fastboot_getvar nm (varlist s) = Some var"
    and "length nm < MAX_VARIABLE_LENGTH" and "length val < MAX_VARIABLE_LENGTH"
    and "distinct (map var_name (varlist c))"
  shows "fst (fastboot_publish e nm val s) = EFI_SUCCESS
     \<and> fastboot_getvar nm (varlist (snd (fastboot_publish e nm val s)))
         = Some (var\<lparr>var_value := val\<rparr>)
     \<and> (get_value var = None \<longrightarrow> fastboot_var_value (var\<lparr>var_value := val\<rparr>) = val)
     \<and> length (varlist (snd (fastboot_publish e nm val s))) = length (varlist s)
     \<and> map var_name (varlist (snd (fastboot_publish e nm val s))) = map var_name (varlist s)
     \<and> (\<forall>nm'. nm' \<noteq> nm \<longrightarrow>
           fastboot_getvar nm' (varlist (snd (fastboot_publish e nm val s)))
           = fastboot_getvar nm' (varlist s))
     \<and> set (varlist (clean_partition_var c))
         = {v \<in> set (varlist c). take 10 (var_name v) \<noteq> ''partition-''}
     \<and> (\<forall>n. fastboot_getvar n (varlist (clean_partition_var c))
           = (if take 10 n = ''partition-'' then None else fastboot_getvar n (varlist c)))"
proof -
  let ?f = "\<lambda>v. v\<lparr>var_value := val\<rparr>"
  note p = publish_found [OF assms(1-3), of e]
  have nmv: "var_name var = nm" using getvar_Some_name [OF assms(1)] by simp
  have names: "map var_name (update_var nm ?f (varlist s)) = map var_name (varlist s)"
    by (rule update_var_names) simp
  have a: "fst (fastboot_publish e nm val s) = EFI_SUCCESS" using p by simp
  have b: "fastboot_getvar nm (varlist (snd (fastboot_publish e nm val s))) = Some (?f var)"
    using p getvar_update_same [OF assms(1), of ?f] nmv by simp
  have c: "get_value var = None \<longrightarrow> fastboot_var_value (?f var) = val"
    by (simp add: fastboot_var_value_def)
  have d: "map var_name (varlist (snd (fastboot_publish e nm val s))) = map var_name (varlist s)"
    using p names by simp
  have d': "length (varlist (snd (fastboot_publish e nm val s))) = length (varlist s)"
    using d by (rule map_eq_imp_length_eq)
  have f: "\<forall>nm'. nm' \<noteq> nm \<longrightarrow>
           fastboot_getvar nm' (varlist (snd (fastboot_publish e nm val s)))
           = fastboot_getvar nm' (varlist s)"
    using p by (simp add: getvar_update_other)
  have g: "set (varlist (clean_partition_var c))
         = {v \<in> set (varlist c). take 10 (var_name v) \<noteq> ''partition-''}"
    by (auto simp: clean_partition_var_def clean_loop_rev_filter is_partition_var_prefix)
  have h: "\<forall>n. fastboot_getvar n (varlist (clean_partition_var c))
           = (if take 10 n = ''partition-'' then None else fastboot_getvar n (varlist c))"
    using getvar_clean [OF assms(4)] unfolding length_MATCH_PART
    by (simp add: clean_partition_var_def MATCH_PART_def)
  show ?thesis using a b c d d' f g h by blast
qed

theorem publish_overwrites_clean_removes_witness:
  "fastboot_getvar ''product'' (varlist (snd (fastboot_publish test_env ''product'' ''blade'' test_session)))
     = Some \<lparr>var_name = ''product'', var_value = ''blade'', get_value = None\<rparr>
   \<and> length (varlist (snd (fastboot_publish test_env ''product'' ''blade'' test_session))) = 3
   \<and> map var_name (varlist (clean_partition_var test_session)) = [''product'', ''has-slot:boot'']
   \<and> fastboot_getvar ''partition-size:boot'' (varlist (clean_partition_var test_session)) = None
   \<and> fastboot_getvar ''has-slot:boot'' (varlist (clean_partition_var test_session))
       = Some \<lparr>var_name = ''has-slot:boot'', var_value = ''no'', get_value = None\<rparr>"
  using publish_overwrites_clean_removes [of "''product''" test_session
      "\<lparr>var_name = ''product'', var_value = ''yt2'', get_value = None\<rparr>" "''blade''" test_session test_env]
  by (simp add: test_session_def test_vars_def MAX_VARIABLE_LENGTH_def clean_partition_var_def
      is_partition_var_def MATCH_PART_def)


subsection \<open>Properties of the replies and of the flash command\<close>

lemma fastboot_fail_direct:
  "fastboot_state s \<noteq> STATE_TX \<Longrightarrow>
   wire (fastboot_fail e txt s) = wire s @ [''FAIL'' @ take 59 txt]"
  by (simp add: fastboot_fail_def fastboot_ack_def fastboot_build_ack_msg_def Let_def
      CODE_LENGTH_def INFO_PAYLOAD_def MAGIC_LENGTH_def)

lemma fastboot_okay_direct:
  "fastboot_state s \<noteq> STATE_TX \<Longrightarrow>
   wire (fastboot_okay e txt s) = wire s @ [''OKAY'' @ take 59 txt]"
  by (simp add: fastboot_okay_def fastboot_ack_def fastboot_build_ack_msg_def Let_def
      CODE_LENGTH_def INFO_PAYLOAD_def MAGIC_LENGTH_def)

lemma fastboot_fail_keeps:
  "flash_calls (fastboot_fail e txt s) = flash_calls s"
  "varlist (fastboot_fail e txt s) = varlist s"
  "dlsize (fastboot_fail e txt s) = dlsize s"
  "bufsize (fastboot_fail e txt s) = bufsize s"
  "dlbuffer (fastboot_fail e txt s) = dlbuffer s"
  by (simp_all add: fastboot_fail_def fastboot_ack_def fastboot_ack_buffered_def Let_def)

lemma white_list_policy:
  "is_in_white_list key (flash_locked_whitelist e) = (BOOTLOADER_POLICY e \<and> key = ACTION_AUTHORIZATION e)"
  by (simp add: flash_locked_whitelist_def)

text \<open>
  Claim C1.  A flash command with its label (\<open>argc = 2\<close>) received while the current
  lock state is \<open>LOCKED\<close>, with a label that is not on the whitelist (on which only
  the authorization label stands, and only when the bootloader policy is compiled in):
  \<open>cmd_flash\<close> does what \<open>fastboot_fail\<close> does with the text
  \<open>Prohibited command in <state> state.\<close>, where \<open><state>\<close> is the name of the current
  state, and nothing else: the flash engine is not called.  From the state in which
  commands are dispatched (not \<open>STATE_TX\<close>) the frame \<open>FAIL\<close> with that text goes to the
  transport.  Whatever the number \<open>n\<close> of tokens on the line, the flash engine is not
  called for such a label in the \<open>LOCKED\<close> state.
\<close>

theorem cmd_flash_locked_prohibited:
  assumes "argc = 2" and "get_current_state e = LOCKED e"
    and "\<not> (BOOTLOADER_POLICY e \<and> argv ! 1 = ACTION_AUTHORIZATION e)"
  shows "cmd_flash e argc argv s
           = fastboot_fail e (''Prohibited command in '' @ get_current_state_string e @ '' state.'') s
     \<and> flash_calls (cmd_flash e argc argv s) = flash_calls s
     \<and> (fastboot_state s \<noteq> STATE_TX \<longrightarrow>
          wire (cmd_flash e argc argv s)
          = wire s @ [''FAIL'' @ take 59 (''Prohibited command in '' @ get_current_state_string e @ '' state.'')])
     \<and> flash_calls (cmd_flash e n argv s) = flash_calls s"
proof -
  have n: "flash_calls (cmd_flash e n argv s) = flash_calls s"
    using assms(2,3) by (simp add: cmd_flash_def white_list_policy fastboot_fail_keeps)
  have c: "cmd_flash e argc argv s
           = fastboot_fail e (''Prohibited command in '' @ get_current_state_string e @ '' state.'') s"
    using assms by (simp add: cmd_flash_def white_list_policy)
  show ?thesis unfolding c using n by (simp add: fastboot_fail_keeps fastboot_fail_direct)
qed

theorem cmd_flash_locked_prohibited_witness:
  "wire (cmd_flash test_env 2 [''flash'', ''boot''] test_session)
     = [''FAILProhibited command in LOCKED state.'']
   \<and> flash_calls (cmd_flash test_env 2 [''flash'', ''boot''] test_session) = []
   \<and> flash_calls (cmd_flash (test_env\<lparr>get_current_state := 1\<rparr>) 2 [''flash'', ''boot''] test_session)
       = [(''boot'', 0)]"
  using cmd_flash_locked_prohibited [of 2 test_env "[''flash'', ''boot'']" test_session]
  by (simp add: test_env_def test_session_def cmd_flash_def flash_locked_whitelist_def
      fastboot_okay_def fastboot_ack_def Let_def)


subsection \<open>Properties of the dispatcher and of getvar\<close>

lemma get_cmd_None_iff: "(get_cmd list nm = None) = (nm \<notin> cmd_name ` set list)"
  by (induction list) auto

lemma get_cmd_Some: "get_cmd list nm = Some cmd \<Longrightarrow> cmd \<in> set list \<and> cmd_name cmd = nm"
  by (induction list) (auto split: if_splits)

lemma get_cmd_handle_update:
  "get_cmd (map (\<lambda>c. c\<lparr>handle := h\<rparr>) list) nm = map_option (\<lambda>c. c\<lparr>handle := h\<rparr>) (get_cmd list nm)"
  by (induction list) auto

text \<open>
  Claim C2.  \<open>fastboot_run_cmd\<close> on a command list.  When no command of that name is
  registered, it does what \<open>fastboot_fail\<close> does with \<open>unknown command\<close>.  When the name
  is registered, \<open>get_cmd\<close> finds a command of that name in the list; when the
  \<open>min_state\<close> of that command is greater than the current lock state, it does what
  \<open>fastboot_fail\<close> does with \<open>command not allowed in <state> state\<close>.  In both cases no
  handler runs: the outcome is the same when every handler of the list is replaced by
  any other function \<open>h\<close>.  Otherwise the outcome is that of the command's handler,
  applied to \<open>argc\<close> and \<open>argv\<close>.
\<close>

theorem fastboot_run_cmd_dispatch:
  "(nm \<notin> cmd_name ` set list \<longrightarrow>
      fastboot_run_cmd e list nm argc argv s = fastboot_fail e ''unknown command'' s
      \<and> fastboot_run_cmd e (map (\<lambda>c. c\<lparr>handle := h\<rparr>) list) nm argc argv s
          = fastboot_run_cmd e list nm argc argv s)
   \<and> (nm \<in> cmd_name ` set list \<longrightarrow>
        (\<exists>cmd. get_cmd list nm = Some cmd \<and> cmd \<in> set list \<and> cmd_name cmd = nm))
   \<and> (\<forall>cmd. get_cmd list nm = Some cmd \<and> min_state cmd > get_current_state e \<longrightarrow>
        fastboot_run_cmd e list nm argc argv s
          = fastboot_fail e (''command not allowed in '' @ get_current_state_string e @ '' state'') s
        \<and> fastboot_run_cmd e (map (\<lambda>c. c\<lparr>handle := h\<rparr>) list) nm argc argv s
            = fastboot_run_cmd e list nm argc argv s)
   \<and> (\<forall>cmd. get_cmd list nm = Some cmd \<and> \<not> min_state cmd > get_current_state e \<longrightarrow>
        fastboot_run_cmd e list nm argc argv s = handle cmd e argc argv s)"
proof -
  have a: "nm \<notin> cmd_name ` set list \<longrightarrow>
      fastboot_run_cmd e list nm argc argv s = fastboot_fail e ''unknown command'' s
      \<and> fastboot_run_cmd e (map (\<lambda>c. c\<lparr>handle := h\<rparr>) list) nm argc argv s
          = fastboot_run_cmd e list nm argc argv s"
    by (simp add: fastboot_run_cmd_def get_cmd_handle_update get_cmd_None_iff [symmetric])
  have b: "nm \<in> cmd_name ` set list \<longrightarrow>
        (\<exists>cmd. get_cmd list nm = Some cmd \<and> cmd \<in> set list \<and> cmd_name cmd = nm)"
    using get_cmd_None_iff [of list nm] get_cmd_Some [of list nm] by (cases "get_cmd list nm") auto
  have c: "\<forall>cmd. get_cmd list nm = Some cmd \<and> min_state cmd > get_current_state e \<longrightarrow>
        fastboot_run_cmd e list nm argc argv s
          = fastboot_fail e (''command not allowed in '' @ get_current_state_string e @ '' state'') s
        \<and> fastboot_run_cmd e (map (\<lambda>c. c\<lparr>handle := h\<rparr>) list) nm argc argv s
            = fastboot_run_cmd e list nm argc argv s"
    by (simp add: fastboot_run_cmd_def get_cmd_handle_update)
  have d: "\<forall>cmd. get_cmd list nm = Some cmd \<and> \<not> min_state cmd > get_current_state e \<longrightarrow>
        fastboot_run_cmd e list nm argc argv s = handle cmd e argc argv s"
    by (simp add: fastboot_run_cmd_def)
  show ?thesis using a b c d by blast
qed

text \<open>Four of the commands of the table \<open>COMMANDS\<close>, with the lock states numbered 0 and 1.\<close>

definition test_commands :: "fastboot_cmd list" where
  "test_commands =
     [\<lparr>cmd_name = ''getvar'', min_state = 0, handle = cmd_getvar\<rparr>,
      \<lparr>cmd_name = ''flash'', min_state = 0, handle = cmd_flash\<rparr>,
      \<lparr>cmd_name = ''erase'', min_state = 1, handle = (\<lambda>e argc argv s. s)\<rparr>,
      \<lparr>cmd_name = ''reboot'', min_state = 0, handle = cmd_reboot\<rparr>]"

theorem fastboot_run_cmd_dispatch_witness:
  "wire (fastboot_run_cmd test_env test_commands ''frobnicate'' 1 [''frobnicate''] test_session)
     = [''FAILunknown command'']
   \<and> wire (fastboot_run_cmd test_env test_commands ''erase'' 2 [''erase'', ''boot''] test_session)
     = [''FAILcommand not allowed in LOCKED state'']
   \<and> fastboot_run_cmd test_env test_commands ''getvar'' 2 [''getvar'', ''product''] test_session
     = cmd_getvar test_env 2 [''getvar'', ''product''] test_session
   \<and> wire (cmd_getvar test_env 2 [''getvar'', ''product''] test_session) = [''OKAYyt2'']"
  using fastboot_run_cmd_dispatch [of "''getvar''" test_commands test_env 2
      "[''getvar'', ''product'']" test_session "\<lambda>e argc argv s. s"]
  by (simp add: test_commands_def fastboot_run_cmd_def test_env_def test_session_def test_vars_def
      fastboot_fail_def fastboot_okay_def fastboot_ack_def fastboot_build_ack_msg_def
      cmd_getvar_def fastboot_var_value_def
      CODE_LENGTH_def INFO_PAYLOAD_def MAGIC_LENGTH_def Let_def)

text \<open>
  Claim C10.  \<open>getvar\<close> with one argument that is not \<open>all\<close>, dispatched as commands
  are (not in \<open>STATE_TX\<close>): when no variable of that name is published, or the variable
  has a getter that returns \<open>NULL\<close> or a string of more than 63 characters, the reply
  handed to the transport is \<open>OKAY\<close> with an empty payload, as \<open>fastboot_okay\<close> sends it.
\<close>

theorem cmd_getvar_unknown_okay_empty:
  assumes "argc = 2" and "argv ! 1 \<noteq> ''all''" and "fastboot_state s \<noteq> STATE_TX"
    and "fastboot_getvar (argv ! 1) (varlist s) = None
         \<or> (\<exists>var. fastboot_getvar (argv ! 1) (varlist s) = Some var
               \<and> (get_value var = Some None
                   \<or> (\<exists>v. get_value var = Some (Some v) \<and> length v > 63)))"
  shows "cmd_getvar e argc argv s = fastboot_okay e [] s
       \<and> wire (cmd_getvar e argc argv s) = wire s @ [''OKAY'']"
proof -
  have v: "(case fastboot_getvar (argv ! 1) (varlist s) of
             Some var \<Rightarrow> fastboot_var_value var | None \<Rightarrow> []) = []"
    using assms(4) by (auto simp: fastboot_var_value_def MAX_VARIABLE_LENGTH_def)
  have c: "cmd_getvar e argc argv s = fastboot_okay e [] s"
    using assms(1,2) v by (simp add: cmd_getvar_def)
  show ?thesis unfolding c using fastboot_okay_direct [OF assms(3), of e "[]"] by simp
qed

theorem cmd_getvar_unknown_okay_empty_witness:
  "wire (cmd_getvar test_env 2 [''getvar'', ''serialno''] test_session) = [''OKAY'']
   \<and> fastboot_getvar ''serialno'' (varlist test_session) = None
   \<and> wire (cmd_getvar test_env 2 [''getvar'', ''battery-voltage'']
         (test_session\<lparr>varlist := [\<lparr>var_name = ''battery-voltage'', var_value = [],
                                       get_value = Some None\<rparr>]\<rparr>)) = [''OKAY'']
   \<and> wire (cmd_getvar test_env 2 [''getvar'', ''battery-voltage'']
         (test_session\<lparr>varlist := [\<lparr>var_name = ''battery-voltage'', var_value = [],
                                       get_value = Some (Some (replicate 64 (CHR ''9'')))\<rparr>]\<rparr>))
       = [''OKAY'']
   \<and> wire (cmd_getvar test_env 2 [''getvar'', ''battery-voltage'']
         (test_session\<lparr>varlist := [\<lparr>var_name = ''battery-voltage'', var_value = [],
                                       get_value = Some (Some ''3700mV'')\<rparr>]\<rparr>))
       = [''OKAY3700mV'']"
  using cmd_getvar_unknown_okay_empty [of 2 "[''getvar'', ''serialno'']" test_session test_env]
  by (simp add: test_session_def test_vars_def test_env_def cmd_getvar_def
      fastboot_okay_def fastboot_ack_def fastboot_build_ack_msg_def fastboot_var_value_def
      CODE_LENGTH_def INFO_PAYLOAD_def MAGIC_LENGTH_def MAX_VARIABLE_LENGTH_def Let_def)


subsection \<open>Properties of the command line\<close>

lemma strtok_r_shorter:
  "strtok_r delim str = (Some t, rest) \<Longrightarrow> length rest < length str"
proof -
  assume a: "strtok_r delim str = (Some t, rest)"
  define r where "r = dropWhile (\<lambda>c. c \<in> set delim) str"
  have ne: "r \<noteq> []" using a by (auto simp: strtok_r_def Let_def r_def split: if_splits)
  have rest: "rest = drop 1 (dropWhile (\<lambda>c. c \<notin> set delim) r)"
    using a by (auto simp: strtok_r_def Let_def r_def split: if_splits)
  have "length (dropWhile (\<lambda>c. c \<notin> set delim) r) \<le> length r" by (rule length_dropWhile_le)
  then have "length rest < length r" using ne rest by (cases "dropWhile (\<lambda>c. c \<notin> set delim) r") auto
  moreover have "length r \<le> length str" unfolding r_def by (rule length_dropWhile_le)
  ultimately show ?thesis by simp
qed

text \<open>The tokens a text still holds: what repeated calls of \<open>strtok_r\<close> with a space return.\<close>

function tokens :: "string \<Rightarrow> string list" where
  "tokens str =
     (case strtok_r '' '' str of
        (None, rest) \<Rightarrow> []
      | (Some t, rest) \<Rightarrow> t # tokens rest)"
  by pat_completeness auto
termination
proof (relation "measure length")
  show "wf (measure length)" by simp
next
  fix str :: string and x y x2
  assume "(x, y) = strtok_r '' '' str" and "x = Some x2"
  then have "strtok_r '' '' str = (Some x2, y)" by simp
  then show "(y, str) \<in> measure length" using strtok_r_shorter by simp
qed

declare tokens.simps [simp del]

lemma tokens_None: "fst (strtok_r '' '' str) = None \<Longrightarrow> tokens str = []"
  by (subst tokens.simps) (auto split: prod.splits option.splits)

lemma tokens_Some: "strtok_r '' '' str = (Some t, rest) \<Longrightarrow> tokens str = t # tokens rest"
  by (subst tokens.simps) simp

lemma tokens_empty_iff: "(tokens str = []) = (fst (strtok_r '' '' str) = None)"
  by (subst tokens.simps) (auto split: prod.splits option.splits)

lemma argv_loop_tokens:
  "argv_loop n saveptr token = (toks, token', saveptr') \<Longrightarrow>
   toks = take n (tokens saveptr)
   \<and> (n \<le> length (tokens saveptr) \<longrightarrow> tokens saveptr' = drop n (tokens saveptr))
   \<and> (0 < n \<longrightarrow> (token' \<noteq> None) = (n \<le> length (tokens saveptr)))"
proof (induction n arbitrary: saveptr token toks token' saveptr')
  case 0
  then show ?case by simp
next
  case (Suc n)
  obtain r rest where st: "strtok_r '' '' saveptr = (r, rest)" by (cases "strtok_r '' '' saveptr")
  show ?case
  proof (cases r)
    case None
    then have "tokens saveptr = []" using st tokens_None [of saveptr] by simp
    then show ?thesis using Suc.prems st None by simp
  next
    case (Some t)
    obtain toks1 tok1 sp1 where l: "argv_loop n rest (Some t) = (toks1, tok1, sp1)"
      by (cases "argv_loop n rest (Some t)")
    have eq: "toks = t # toks1" "token' = tok1" "saveptr' = sp1"
      using Suc.prems st Some l by simp_all
    have tk: "tokens saveptr = t # tokens rest" using st Some tokens_Some by simp
    note ih = Suc.IH [OF l]
    show ?thesis
    proof (cases n)
      case 0
      then show ?thesis using eq tk l by auto
    next
      case (Suc m)
      then show ?thesis using eq tk ih by simp
    qed
  qed
qed

lemma get_command_buffer_argv_tokens:
  assumes "strtok_r '': '' buf = (Some argv0, saveptr)"
  shows "get_command_buffer_argv buf MAX_ARGS =
         (if length (tokens saveptr) > MAX_ARGS - 1 then Inl EFI_INVALID_PARAMETER
          else Inr (1 + int (length (tokens saveptr)), argv0 # tokens saveptr))"
proof -
  obtain toks token sp where l: "argv_loop (MAX_ARGS - 1) saveptr None = (toks, token, sp)"
    by (cases "argv_loop (MAX_ARGS - 1) saveptr None")
  note t = argv_loop_tokens [OF l]
  have pos: "0 < MAX_ARGS - 1" by (simp add: MAX_ARGS_def)
  show ?thesis
  proof (cases "MAX_ARGS - 1 \<le> length (tokens saveptr)")
    case True
    then have tok: "token \<noteq> None" and rest: "tokens sp = drop (MAX_ARGS - 1) (tokens saveptr)"
      and tk: "toks = take (MAX_ARGS - 1) (tokens saveptr)"
      using t pos by simp_all
    have more: "(fst (strtok_r '' '' sp) \<noteq> None) = (length (tokens saveptr) > MAX_ARGS - 1)"
      using tokens_empty_iff [of sp] rest by auto
    show ?thesis
    proof (cases "length (tokens saveptr) > MAX_ARGS - 1")
      case True
      then show ?thesis using assms l tok more by (simp add: get_command_buffer_argv_def)
    next
      case False
      then have "toks = tokens saveptr" using tk \<open>MAX_ARGS - 1 \<le> length (tokens saveptr)\<close> by simp
      then show ?thesis using assms l tok more False by (simp add: get_command_buffer_argv_def)
    qed
  next
    case False
    then have tok: "token = None" and tk: "toks = tokens saveptr" using t pos by simp_all
    show ?thesis using assms l tok tk False by (simp add: get_command_buffer_argv_def)
  qed
qed


text \<open>A command line of seventeen tokens, and one of sixteen.\<close>

definition line17 :: string where
  "line17 = ''reboot a b c d e f g h i j k l m n o p''"

definition line16 :: string where
  "line16 = ''getvar:a b c d e f g h i j k l m n o''"

lemma parse_line16:
  "get_command_buffer_argv line16 MAX_ARGS =
    Inr (16, [''getvar'', ''a'', ''b'', ''c'', ''d'', ''e'', ''f'', ''g'', ''h'', ''i'', ''j'',
              ''k'', ''l'', ''m'', ''n'', ''o''])"
  by (simp add: get_command_buffer_argv_def line16_def MAX_ARGS_def strtok_r_def Let_def eval_nat_numeral)

lemma parse_line17: "get_command_buffer_argv line17 MAX_ARGS = Inl EFI_INVALID_PARAMETER"
  by (simp add: get_command_buffer_argv_def line17_def MAX_ARGS_def strtok_r_def Let_def eval_nat_numeral)

lemma tokenized_line17: "tokenized_buffer line17 = ''reboot''"
  by (simp add: tokenized_buffer_def line17_def)

lemma run_command_parse_error:
  assumes "fastboot_state s = STATE_COMMAND"
    and "get_command_buffer_argv (command_buffer s) MAX_ARGS = Inl ret"
  shows "fastboot_run_command e cmdlist s
         = Some (s\<lparr>command_buffer := tokenized_buffer (command_buffer s)\<rparr>)"
  using assms by (simp add: fastboot_run_command_def Let_def)

text \<open>
  Claim C6.  The claim: a command line with a further token after the sixteenth makes
  the parser return \<open>EFI_INVALID_PARAMETER\<close>, and the device transmits a \<open>FAIL\<close> for
  that command.  The parser does return \<open>EFI_INVALID_PARAMETER\<close> on the line of
  seventeen tokens.  \<open>fastboot_run_command\<close> then only logs and returns: nothing is
  handed to the transport, nothing is queued, and the state stays \<open>STATE_COMMAND\<close> with
  the buffer cut after its first token by \<open>strtok_r\<close>.  The next round of the main loop
  therefore runs the first token alone as a command: here \<open>reboot\<close>, which is answered
  with \<open>OKAY\<close> and stops the session for a normal boot.
\<close>

theorem fastboot_run_command_no_reply:
  "get_command_buffer_argv line17 MAX_ARGS = Inl EFI_INVALID_PARAMETER
   \<and> fastboot_run_command test_env test_commands (test_session\<lparr>command_buffer := line17\<rparr>)
       = Some (test_session\<lparr>command_buffer := ''reboot''\<rparr>)
   \<and> wire (test_session\<lparr>command_buffer := ''reboot''\<rparr>) = []
   \<and> txbuf (test_session\<lparr>command_buffer := ''reboot''\<rparr>) = []
   \<and> fastboot_state (test_session\<lparr>command_buffer := ''reboot''\<rparr>) = STATE_COMMAND
   \<and> fastboot_run_command test_env test_commands (test_session\<lparr>command_buffer := ''reboot''\<rparr>)
       = Some (test_session\<lparr>command_buffer := ''reboot'', fastboot_state := STATE_STOPPING,
                 next_state := STATE_STOPPING, fastboot_target := NORMAL_BOOT,
                 wire := [''OKAY'']\<rparr>)"
proof -
  have a: "fastboot_run_command test_env test_commands (test_session\<lparr>command_buffer := line17\<rparr>)
       = Some (test_session\<lparr>command_buffer := ''reboot''\<rparr>)"
    using run_command_parse_error [of "test_session\<lparr>command_buffer := line17\<rparr>"
        EFI_INVALID_PARAMETER test_env test_commands]
    by (simp add: parse_line17 tokenized_line17 test_session_def)
  have p: "get_command_buffer_argv ''reboot'' MAX_ARGS = Inr (1, [''reboot''])"
    by (simp add: get_command_buffer_argv_def MAX_ARGS_def strtok_r_def Let_def eval_nat_numeral)
  have t: "tokenized_buffer ''reboot'' = ''reboot''" by (simp add: tokenized_buffer_def)
  have b: "fastboot_run_command test_env test_commands (test_session\<lparr>command_buffer := ''reboot''\<rparr>)
       = Some (test_session\<lparr>command_buffer := ''reboot'', fastboot_state := STATE_STOPPING,
                 next_state := STATE_STOPPING, fastboot_target := NORMAL_BOOT,
                 wire := [''OKAY'']\<rparr>)"
    by (simp add: fastboot_run_command_def p t test_session_def test_commands_def test_env_def
        fastboot_run_cmd_def cmd_reboot_def fastboot_reboot_def fastboot_stop_def
        fastboot_okay_def fastboot_ack_def
        fastboot_build_ack_msg_def CODE_LENGTH_def INFO_PAYLOAD_def MAGIC_LENGTH_def Let_def)
  show ?thesis using a b parse_line17 by (simp add: test_session_def)
qed

subsection \<open>Properties of the download command\<close>

lemma unat_ucast_32_64: "unat (ucast (b::u32) :: u64) = unat b"
proof -
  have "unat b < 2 ^ 32" using unsigned_less [of b, where 'a = nat] by simp
  then have "unat b < 2 ^ 64" by simp
  then show ?thesis by (simp add: unsigned_ucast_eq take_bit_nat_eq_self)
qed

lemma unat_ucast_64_32:
  "unat (n::u64) < 2 ^ 32 \<Longrightarrow> unat (ucast n :: u32) = unat n"
  by (simp add: unsigned_ucast_eq take_bit_nat_eq_self)

lemma ucast_back:
  "n \<le> (m::u64) \<Longrightarrow> m \<le> 0xFFFFFFFF \<Longrightarrow> (ucast (ucast n :: u32) :: u64) = n"
proof -
  assume a: "n \<le> m" and b: "m \<le> 0xFFFFFFFF"
  then have "unat n \<le> 4294967295" by (simp add: word_le_nat_alt)
  then have "unat n < 2 ^ 32" by simp
  then have "unat (ucast (ucast n :: u32) :: u64) = unat n"
    by (simp add: unat_ucast_32_64 unat_ucast_64_32)
  then show ?thesis by (rule word_unat_eq_iff [THEN iffD2])
qed

lemma u32_max_ucast:
  "(n::u64) > ucast (b::u32) \<Longrightarrow> n \<le> m \<Longrightarrow> m \<le> 0xFFFFFFFF \<Longrightarrow> max b (ucast n) = ucast n"
proof -
  assume a: "n > ucast b" and le: "n \<le> m" and m: "m \<le> 0xFFFFFFFF"
  have "unat n \<le> 4294967295" using le m by (simp add: word_le_nat_alt)
  then have "unat n < 2 ^ 32" by simp
  then have u: "unat (ucast n :: u32) = unat n" by (rule unat_ucast_64_32)
  have "unat b < unat n" using a by (simp add: word_less_nat_alt unat_ucast_32_64)
  then have "b < ucast n" using u by (simp add: word_less_nat_alt)
  then have "b \<le> ucast n" by simp
  then show ?thesis by (simp add: max_def)
qed

lemma u32_max_keep:
  "\<not> (n::u64) > ucast (b::u32) \<Longrightarrow> max b (ucast n) = b"
proof -
  assume a: "\<not> n > ucast b"
  then have le: "unat n \<le> unat b" by (simp add: word_less_nat_alt unat_ucast_32_64)
  moreover have "unat b < 2 ^ 32" using unsigned_less [of b, where 'a = nat] by simp
  ultimately have "unat n < 2 ^ 32" by simp
  then have u: "unat (ucast n :: u32) = unat n" by (rule unat_ucast_64_32)
  then have "ucast n \<le> b" using le by (simp add: word_le_nat_alt)
  then show ?thesis by (simp add: max_def)
qed

text \<open>
  Claim C5.  \<open>download:<hex-size>\<close> (\<open>argc = 2\<close>), dispatched as commands are, with a
  \<open>MAX_DOWNLOAD_SIZE\<close> that fits the 32 bits of \<open>dlsize\<close>; \<open>n\<close> is the size parsed.
  A size of 0 and a size above \<open>MAX_DOWNLOAD_SIZE\<close> are answered with a \<open>FAIL\<close> and leave
  the buffer and both sizes alone.  A size within the current capacity leaves buffer and
  capacity alone: the buffer is replaced only for a size above the capacity.  When
  that allocation fails, the answer is \<open>FAIL Memory allocation failure\<close>, and \<open>dlsize\<close>
  and \<open>bufsize\<close> are 0.  Otherwise the message \<open>DATA\<close> with the size in eight
  hexadecimal digits goes to the transport, \<open>dlsize\<close> is the size, the capacity is the
  larger of the old capacity and the size, and the state is \<open>STATE_START_DOWNLOAD\<close>,
  unless \<open>transport_write\<close> fails, which turns it to \<open>STATE_ERROR\<close>.
\<close>

theorem cmd_download_cases:
  assumes "argc = 2" and "MAX_DOWNLOAD_SIZE e \<le> 0xFFFFFFFF" and "fastboot_state s \<noteq> STATE_TX"
    and "n = strtoul16 e (argv ! 1)" and "s' = cmd_download e argc argv s"
  shows "(n = 0 \<longrightarrow> wire s' = wire s @ [''FAILno data to download'']
            \<and> dlbuffer s' = dlbuffer s \<and> bufsize s' = bufsize s \<and> dlsize s' = dlsize s)
    \<and> (n > MAX_DOWNLOAD_SIZE e \<longrightarrow> wire s' = wire s @ [''FAILdata too large'']
            \<and> dlbuffer s' = dlbuffer s \<and> bufsize s' = bufsize s \<and> dlsize s' = dlsize s)
    \<and> (n \<noteq> 0 \<and> n \<le> MAX_DOWNLOAD_SIZE e \<and> n \<le> ucast (bufsize s) \<longrightarrow>
            dlbuffer s' = dlbuffer s \<and> bufsize s' = bufsize s)
    \<and> (n \<noteq> 0 \<and> n \<le> MAX_DOWNLOAD_SIZE e \<and> n > ucast (bufsize s) \<and> \<not> alloc_dlbuffer e n \<longrightarrow>
            wire s' = wire s @ [''FAILMemory allocation failure'']
            \<and> dlsize s' = 0 \<and> bufsize s' = 0 \<and> dlbuffer s' = None)
    \<and> (n \<noteq> 0 \<and> n \<le> MAX_DOWNLOAD_SIZE e \<and> (n \<le> ucast (bufsize s) \<or> alloc_dlbuffer e n) \<longrightarrow>
            wire s' = wire s @ [''DATA'' @ hex8 (ucast n)]
            \<and> ucast (dlsize s') = n
            \<and> bufsize s' = max (bufsize s) (ucast n)
            \<and> (n > ucast (bufsize s) \<longrightarrow> dlbuffer s' = Some n)
            \<and> fastboot_state s' =
                (if EFI_ERROR (transport_write e (''DATA'' @ hex8 (ucast n))) then STATE_ERROR
                 else STATE_START_DOWNLOAD))"
proof -
  note d = cmd_download_def Let_def assms(1,4,5)
  have a: "n = 0 \<longrightarrow> wire s' = wire s @ [''FAILno data to download'']
            \<and> dlbuffer s' = dlbuffer s \<and> bufsize s' = bufsize s \<and> dlsize s' = dlsize s"
    using fastboot_fail_direct [OF assms(3), of e "''no data to download''"]
    by (simp add: d fastboot_fail_keeps)
  have b: "n > MAX_DOWNLOAD_SIZE e \<longrightarrow> wire s' = wire s @ [''FAILdata too large'']
            \<and> dlbuffer s' = dlbuffer s \<and> bufsize s' = bufsize s \<and> dlsize s' = dlsize s"
    using fastboot_fail_direct [OF assms(3), of e "''data too large''"]
    by (auto simp add: d fastboot_fail_keeps)
  have c: "n \<noteq> 0 \<and> n \<le> MAX_DOWNLOAD_SIZE e \<and> n \<le> ucast (bufsize s) \<longrightarrow>
            dlbuffer s' = dlbuffer s \<and> bufsize s' = bufsize s"
    by (auto simp add: d)
  have f: "n \<noteq> 0 \<and> n \<le> MAX_DOWNLOAD_SIZE e \<and> n > ucast (bufsize s) \<and> \<not> alloc_dlbuffer e n \<longrightarrow>
            wire s' = wire s @ [''FAILMemory allocation failure'']
            \<and> dlsize s' = 0 \<and> bufsize s' = 0 \<and> dlbuffer s' = None"
  proof -
    have "fastboot_state (s\<lparr>dlbuffer := None\<rparr>) \<noteq> STATE_TX" using assms(3) by simp
    from fastboot_fail_direct [OF this, of e "''Memory allocation failure''"]
    show ?thesis by (auto simp add: d fastboot_fail_keeps)
  qed
  have g: "n \<noteq> 0 \<and> n \<le> MAX_DOWNLOAD_SIZE e \<and> (n \<le> ucast (bufsize s) \<or> alloc_dlbuffer e n) \<longrightarrow>
            wire s' = wire s @ [''DATA'' @ hex8 (ucast n)]
            \<and> ucast (dlsize s') = n
            \<and> bufsize s' = max (bufsize s) (ucast n)
            \<and> (n > ucast (bufsize s) \<longrightarrow> dlbuffer s' = Some n)
            \<and> fastboot_state s' =
                (if EFI_ERROR (transport_write e (''DATA'' @ hex8 (ucast n))) then STATE_ERROR
                 else STATE_START_DOWNLOAD)"
  proof
    assume h: "n \<noteq> 0 \<and> n \<le> MAX_DOWNLOAD_SIZE e \<and> (n \<le> ucast (bufsize s) \<or> alloc_dlbuffer e n)"
    then have r: "(ucast (ucast n :: u32) :: u64) = n" using ucast_back assms(2) by blast
    have nl: "\<not> n > MAX_DOWNLOAD_SIZE e" using h by (simp add: not_less)
    show "wire s' = wire s @ [''DATA'' @ hex8 (ucast n)]
            \<and> ucast (dlsize s') = n
            \<and> bufsize s' = max (bufsize s) (ucast n)
            \<and> (n > ucast (bufsize s) \<longrightarrow> dlbuffer s' = Some n)
            \<and> fastboot_state s' =
                (if EFI_ERROR (transport_write e (''DATA'' @ hex8 (ucast n))) then STATE_ERROR
                 else STATE_START_DOWNLOAD)"
    proof (cases "n > ucast (bufsize s)")
      case True
      then have al: "alloc_dlbuffer e n" using h by auto
      have m: "max (bufsize s) (ucast n) = ucast n"
        using u32_max_ucast [OF True] h assms(2) by blast
      show ?thesis using h True al r m nl by (simp add: d)
    next
      case False
      have m: "max (bufsize s) (ucast n) = bufsize s" using u32_max_keep [OF False] .
      show ?thesis using h False r m nl by (simp add: d)
    qed
  qed
  show ?thesis using a b c f g by blast
qed

lemma hex8_4096: "hex8 4096 = ''00001000''"
  by code_simp


lemma cmd_download_example: "cmd_download test_env 2 [''download'', ''00001000''] test_session
   = test_session\<lparr>dlbuffer := Some 4096, bufsize := 4096, dlsize := 4096,
        fastboot_state := STATE_START_DOWNLOAD, wire := [''DATA00001000'']\<rparr>"
  by (simp add: test_env_def test_session_def cmd_download_def hex8_4096 Let_def)

lemma cmd_download_fail_examples: "wire (cmd_download (test_env\<lparr>alloc_dlbuffer := (\<lambda>n. False)\<rparr>) 2 [''download'', ''00001000'']
            test_session) = [''FAILMemory allocation failure'']
   \<and> wire (cmd_download (test_env\<lparr>strtoul16 := (\<lambda>str. 0)\<rparr>) 2 [''download'', ''0'']
            test_session) = [''FAILno data to download'']
   \<and> wire (cmd_download (test_env\<lparr>strtoul16 := (\<lambda>str. 0x10000001)\<rparr>) 2 [''download'', ''10000001'']
            test_session) = [''FAILdata too large'']"
  by (simp add: test_env_def test_session_def cmd_download_def Let_def
      fastboot_fail_def fastboot_ack_def fastboot_build_ack_msg_def
      CODE_LENGTH_def INFO_PAYLOAD_def MAGIC_LENGTH_def)

theorem cmd_download_cases_witness:
  "cmd_download test_env 2 [''download'', ''00001000''] test_session
     = test_session\<lparr>dlbuffer := Some 4096, bufsize := 4096, dlsize := 4096,
          fastboot_state := STATE_START_DOWNLOAD, wire := [''DATA00001000'']\<rparr>
   \<and> wire (cmd_download test_env 2 [''download'', ''00001000''] test_session)
       = wire test_session @ [''DATA'' @ hex8 (ucast (4096::u64))]
   \<and> wire (cmd_download (test_env\<lparr>alloc_dlbuffer := (\<lambda>n. False)\<rparr>) 2 [''download'', ''00001000'']
            test_session) = [''FAILMemory allocation failure'']
   \<and> wire (cmd_download (test_env\<lparr>strtoul16 := (\<lambda>str. 0)\<rparr>) 2 [''download'', ''0'']
            test_session) = [''FAILno data to download'']
   \<and> wire (cmd_download (test_env\<lparr>strtoul16 := (\<lambda>str. 0x10000001)\<rparr>) 2 [''download'', ''10000001'']
            test_session) = [''FAILdata too large'']"
proof -
  have h2: "MAX_DOWNLOAD_SIZE test_env \<le> 0xFFFFFFFF" by (simp add: test_env_def)
  have h3: "fastboot_state test_session \<noteq> STATE_TX" by (simp add: test_session_def)
  have h4: "(4096::u64) = strtoul16 test_env ([''download'', ''00001000''] ! 1)"
    by (simp add: test_env_def)
  note th = cmd_download_cases [OF refl h2 h3 h4 refl]
  have n0: "(4096::u64) \<noteq> 0 \<and> 4096 \<le> MAX_DOWNLOAD_SIZE test_env
            \<and> (4096 \<le> ucast (bufsize test_session) \<or> alloc_dlbuffer test_env 4096)"
    by (simp add: test_env_def)
  have w: "wire (cmd_download test_env 2 [''download'', ''00001000''] test_session)
       = wire test_session @ [''DATA'' @ hex8 (ucast (4096::u64))]"
    using th n0 by blast
  show ?thesis using w cmd_download_example cmd_download_fail_examples by blast
qed


section \<open>Verified-boot checker (libkernelflinger/security.c)\<close>

datatype boot_state = BOOT_STATE_GREEN | BOOT_STATE_YELLOW | BOOT_STATE_RED

text \<open>The signature algorithms the code tells apart; \<open>NID_other\<close> is any other identifier.\<close>

datatype nid =
    NID_sha1WithRSAEncryption
  | NID_sha256WithRSAEncryption
  | NID_sha512WithRSAEncryption
  | NID_sha1
  | NID_sha256
  | NID_sha512
  | NID_other nat

text \<open>
  \<open>struct boot_signature\<close> as \<open>get_boot_signature\<close> delivers it: the algorithm, the
  signature bytes, the target of the authenticated attributes, and the embedded
  certificate (\<open>None\<close> when there is none).  Certificates are of an arbitrary type \<open>'c\<close>.
\<close>

record 'c boot_signature =
  id_nid :: nid
  signature :: "8 word list"
  target :: string
  certificate :: "'c option"

text \<open>
  The arguments of \<open>verify_android_boot_image\<close> and the answers of the library:
  which pointer arguments are \<open>NULL\<close>; the results of \<open>get_bootimage_header\<close> (\<open>False\<close> for
  \<open>NULL\<close>, that is a bad magic), \<open>get_boot_signature\<close> and \<open>der_to_x509\<close>; whether the
  hash buffer is allocated and the hash context initialised, and the digest computed
  for an algorithm; \<open>get_rsa_pubkey\<close> and \<open>EVP_PKEY_get1_RSA\<close> (\<open>None\<close> for \<open>NULL\<close>);
  \<open>RSA_verify\<close> and \<open>X509_verify\<close> as opaque functions with an \<open>int\<close> result; the
  signature algorithm of a certificate and whether \<open>EVP_add_digest\<close> succeeds; and
  \<open>stra_to_str\<close> on the target.
\<close>

record ('c, 'k, 'r) verify_env =
  bootimage_null :: bool
  der_cert_null :: bool
  target_null :: bool
  get_bootimage_header :: bool
  get_boot_signature :: "'c boot_signature option"
  der_to_x509 :: "'c option"
  alloc_hash :: bool
  sha_init :: "nid \<Rightarrow> bool"
  digest :: "nid \<Rightarrow> 8 word list"
  get_rsa_pubkey :: "'c \<Rightarrow> 'k option"
  EVP_PKEY_get1_RSA :: "'k \<Rightarrow> 'r option"
  RSA_verify :: "nid \<Rightarrow> 8 word list \<Rightarrow> 8 word list \<Rightarrow> 'r \<Rightarrow> int"
  sig_alg :: "'c \<Rightarrow> nid"
  EVP_add_digest :: "nid \<Rightarrow> int"
  X509_verify :: "'c \<Rightarrow> 'k \<Rightarrow> int"
  stra_to_str :: "string \<Rightarrow> string option"

definition get_hash_buffer :: "('c, 'k, 'r) verify_env \<Rightarrow> nid \<Rightarrow> efi_status" where
  "get_hash_buffer e n =
     (if n = NID_sha1WithRSAEncryption \<or> n = NID_sha256WithRSAEncryption
         \<or> n = NID_sha512WithRSAEncryption
      then (if alloc_hash e then EFI_SUCCESS else EFI_OUT_OF_RESOURCES)
      else EFI_UNSUPPORTED)"

definition hash_bootimage :: "('c, 'k, 'r) verify_env \<Rightarrow> 'c boot_signature \<Rightarrow> efi_status + 8 word list" where
  "hash_bootimage e bs =
     (let eret = get_hash_buffer e (id_nid bs)
      in if EFI_ERROR eret then Inl eret
         else if sha_init e (id_nid bs) then Inr (digest e (id_nid bs))
         else Inl EFI_INVALID_PARAMETER)"

fun get_rsa_verify_nid :: "nid \<Rightarrow> nid" where
  "get_rsa_verify_nid NID_sha256WithRSAEncryption = NID_sha256"
| "get_rsa_verify_nid NID_sha512WithRSAEncryption = NID_sha512"
| "get_rsa_verify_nid NID_sha1WithRSAEncryption = NID_sha1"
| "get_rsa_verify_nid n = n"

definition check_bootimage :: "('c, 'k, 'r) verify_env \<Rightarrow> 'c boot_signature \<Rightarrow> 'c \<Rightarrow> efi_status" where
  "check_bootimage e sg cert =
     (case hash_bootimage e sg of
        Inl ret \<Rightarrow> EFI_ACCESS_DENIED
      | Inr hash \<Rightarrow>
          (case get_rsa_pubkey e cert of
             None \<Rightarrow> EFI_ACCESS_DENIED
           | Some pkey \<Rightarrow>
               (case EVP_PKEY_get1_RSA e pkey of
                  None \<Rightarrow> EFI_ACCESS_DENIED
                | Some rsa \<Rightarrow>
                    if RSA_verify e (get_rsa_verify_nid (id_nid sg)) hash (signature sg) rsa = 1
                    then EFI_SUCCESS else EFI_ACCESS_DENIED)))"

definition add_digest :: "('c, 'k, 'r) verify_env \<Rightarrow> nid \<Rightarrow> efi_status" where
  "add_digest e n =
     (if n = NID_sha256WithRSAEncryption \<or> n = NID_sha512WithRSAEncryption
      then (if EVP_add_digest e (get_rsa_verify_nid n) \<noteq> 0 then EFI_SUCCESS else EFI_UNSUPPORTED)
      else EFI_UNSUPPORTED)"

text \<open>
  \<open>verify_android_boot_image\<close>: the state returned, what is stored through \<open>target\<close>
  (\<open>None\<close> when nothing is stored) and through \<open>verifier_cert\<close>.  \<open>BOOT_TARGET_SIZE\<close>,
  the bound of \<open>StrNCpy\<close>, is declared outside the files modelled here and is a parameter.
\<close>

definition verify_android_boot_image ::
  "nat \<Rightarrow> ('c, 'k, 'r) verify_env \<Rightarrow> boot_state \<times> string option \<times> 'c option" where
  "verify_android_boot_image BOOT_TARGET_SIZE e =
     (if bootimage_null e \<or> der_cert_null e \<or> target_null e then (BOOT_STATE_RED, None, None)
      else if \<not> get_bootimage_header e then (BOOT_STATE_RED, None, None)
      else
        case get_boot_signature e of
          None \<Rightarrow> (BOOT_STATE_RED, None, None)
        | Some sg \<Rightarrow>
            (case der_to_x509 e of
               None \<Rightarrow> (BOOT_STATE_RED, None, None)
             | Some cert \<Rightarrow>
                 let ret = check_bootimage e sg cert;
                     (verify_state, verifier_cert) =
                       (if \<not> EFI_ERROR ret then (BOOT_STATE_GREEN, Some cert)
                        else if ret \<noteq> EFI_ACCESS_DENIED \<or> certificate sg = None
                             then (BOOT_STATE_RED, None)
                        else
                          case certificate sg of
                            None \<Rightarrow> (BOOT_STATE_RED, None)
                          | Some emb \<Rightarrow>
                              if EFI_ERROR (check_bootimage e sg emb) then (BOOT_STATE_RED, None)
                              else
                                (case get_rsa_pubkey e cert of
                                   None \<Rightarrow> (BOOT_STATE_YELLOW, Some emb)
                                 | Some oemkey \<Rightarrow>
                                     if EFI_ERROR (add_digest e (sig_alg e emb))
                                        \<or> X509_verify e emb oemkey \<noteq> 1
                                     then (BOOT_STATE_YELLOW, Some emb)
                                     else (BOOT_STATE_GREEN, Some emb)))
                 in case stra_to_str e (target sg) of
                      None \<Rightarrow> (BOOT_STATE_RED, None, verifier_cert)
                    | Some target_tmp \<Rightarrow>
                        (verify_state, Some (take BOOT_TARGET_SIZE target_tmp), verifier_cert)))"

subsection \<open>Classification of a boot image\<close>






lemma check_bootimage_rsa:
  "(check_bootimage e sg cert = EFI_SUCCESS) =
   (\<exists>hash pkey rsa. hash_bootimage e sg = Inr hash \<and> get_rsa_pubkey e cert = Some pkey
       \<and> EVP_PKEY_get1_RSA e pkey = Some rsa
       \<and> RSA_verify e (get_rsa_verify_nid (id_nid sg)) hash (signature sg) rsa = 1)"
  by (auto simp: check_bootimage_def split: sum.splits option.splits)


text \<open>
  An environment with the OEM certificate 1 and the embedded certificate 2, where the
  three flags say whether the signature verifies under the key of the first, under the
  key of the second, and whether \<open>X509_verify\<close> accepts the second under the first.
\<close>

definition example_verify_env :: "bool \<Rightarrow> bool \<Rightarrow> bool \<Rightarrow> (nat, nat, nat) verify_env" where
  "example_verify_env by_oem by_embedded endorsed =
     \<lparr>bootimage_null = False, der_cert_null = False, target_null = False,
      get_bootimage_header = True,
      get_boot_signature = Some \<lparr>id_nid = NID_sha256WithRSAEncryption, signature = [],
                                 target = ''/boot'', certificate = Some 2\<rparr>,
      der_to_x509 = Some 1, alloc_hash = True, sha_init = (\<lambda>n. True), digest = (\<lambda>n. []),
      get_rsa_pubkey = (\<lambda>c. Some c), EVP_PKEY_get1_RSA = (\<lambda>k. Some k),
      RSA_verify = (\<lambda>n h sg r. if (r = 1 \<and> by_oem) \<or> (r = 2 \<and> by_embedded) then 1 else 0),
      sig_alg = (\<lambda>c. NID_sha256WithRSAEncryption), EVP_add_digest = (\<lambda>n. 1),
      X509_verify = (\<lambda>c k. if endorsed then 1 else 0), stra_to_str = Some\<rparr>"

lemma verify_android_boot_image_examples:
  "verify_android_boot_image 64 (example_verify_env True False False)
     = (BOOT_STATE_GREEN, Some ''/boot'', Some 1)"
  "verify_android_boot_image 64 (example_verify_env False True True)
     = (BOOT_STATE_GREEN, Some ''/boot'', Some 2)"
  "verify_android_boot_image 64 (example_verify_env False True False)
     = (BOOT_STATE_YELLOW, Some ''/boot'', Some 2)"
  "verify_android_boot_image 64 (example_verify_env False False True)
     = (BOOT_STATE_RED, Some ''/boot'', None)"
  "verify_android_boot_image 64 ((example_verify_env True True True)\<lparr>stra_to_str := (\<lambda>t. None)\<rparr>)
     = (BOOT_STATE_RED, None, Some 1)"
  by (simp_all add: verify_android_boot_image_def example_verify_env_def check_bootimage_def
      hash_bootimage_def get_hash_buffer_def add_digest_def Let_def)



end
